theory Spec2Isabelle
  imports Main "HOL-Library.Sublist" "HOL-Library.Code_Target_Numeral"
begin

section \<open>Data model\<close>

text \<open>
  The per-service state machine has four states. The type \<open>State\<close>, its constants and its
  \<open>String\<close> method are declared outside \<^verbatim>\<open>main.go\<close> and \<^verbatim>\<open>ssh.go\<close>; the constants appear
  there as \<^verbatim>\<open>StateOK\<close>, \<^verbatim>\<open>StateFreeze\<close>, \<^verbatim>\<open>StateRollback\<close> and \<^verbatim>\<open>StateBroken\<close>.
\<close>

datatype State = StateOK | StateFreeze | StateRollback | StateBroken

text \<open>
  Modelled from the spec: the \<open>String\<close> method of \<open>State\<close> is missing from the sources; the
  spec names the states \<open>OK\<close>, \<open>FREEZE\<close>, \<open>ROLLBACK\<close> and \<open>BROKEN\<close>.
\<close>

fun State_String :: "State \<Rightarrow> string" where
  "State_String StateOK = ''OK''"
| "State_String StateFreeze = ''FREEZE''"
| "State_String StateRollback = ''ROLLBACK''"
| "State_String StateBroken = ''BROKEN''"

text \<open>
  The command-line configuration of \<^verbatim>\<open>main.go\<close> (\<^verbatim>\<open>ExecContext\<close>); the HTTP multiplexer it
  also carries plays no role in what follows. It is declared before \<open>Service\<close>, so the
  unqualified \<open>Upstream\<close> and \<open>Mount\<close> below are the fields of a service.
\<close>

record ExecContext =
  Hosts :: "string list"
  ConfigSource :: string
  SAddr :: string
  MAddr :: string
  Debug :: bool
  Restart :: bool
  Upstream :: string
  Dir :: string
  Branch :: string
  Mount :: string
  Pull :: bool

text \<open>
  A service, with the fields that \<^verbatim>\<open>main.go\<close> and \<^verbatim>\<open>ssh.go\<close> read, followed by its status
  (state, info, time of the last change, last known hash). Times are seconds on some clock.
\<close>

record Service =
  Machine :: string
  Service :: string
  Upstream :: string
  Mount :: string
  Package :: string
  state :: State
  info :: string
  change :: nat
  hash :: string

record Keys =
  Path :: "string list"

record Config =
  Global :: Service
  Services :: "Service list"
  Keys :: Keys

text \<open>
  Modelled from the spec: \<open>forMe\<close> is missing from the sources. The spec: a worker runs here
  iff \<open>machine\<close> is in the host-identity set.
\<close>

definition forMe :: "Service \<Rightarrow> string list \<Rightarrow> bool" where
  "forMe s hosts = (Machine s \<in> set hosts)"

text \<open>
  Modelled from the spec: \<open>SetState\<close>, \<open>State\<close>, \<open>Hash\<close> and \<open>Change\<close> are missing from the
  sources. The spec: \<open>SetState(state, info)\<close> stores both and updates the change time to now.
\<close>

definition SetState :: "nat \<Rightarrow> Service \<Rightarrow> State \<Rightarrow> string \<Rightarrow> Service" where
  "SetState now s st msg = s\<lparr>state := st, info := msg, change := now\<rparr>"

definition State :: "Service \<Rightarrow> State \<times> string" where
  "State s = (state s, info s)"

definition Hash :: "Service \<Rightarrow> string" where
  "Hash s = hash s"

definition Change :: "Service \<Rightarrow> nat" where
  "Change s = change s"

section \<open>The control plane (ssh.go)\<close>

subsection \<open>Sessions and replies\<close>

text \<open>
  A session carries the tokens of the command, collects what the handler writes and
  remembers the exit status the handler set; \<open>None\<close> is a handler that returned without
  calling \<^verbatim>\<open>s.Exit\<close>.
\<close>

record Session =
  Command :: "string list"
  stdout :: string
  status :: "int option"

definition WriteString :: "Session \<Rightarrow> string \<Rightarrow> Session" where
  "WriteString s text = s\<lparr>stdout := stdout s @ text\<rparr>"

definition Exit :: "Session \<Rightarrow> int \<Rightarrow> Session" where
  "Exit s code = s\<lparr>status := Some code\<rparr>"

definition StatusOK :: int where "StatusOK = 200"
definition StatusBadRequest :: int where "StatusBadRequest = 400"
definition StatusNotFound :: int where "StatusNotFound = 404"
definition StatusNotAcceptable :: int where "StatusNotAcceptable = 406"
definition StatusInternalServerError :: int where "StatusInternalServerError = 500"

text \<open>\<^verbatim>\<open>http.StatusText\<close> of the Go library, on the codes \<^verbatim>\<open>ssh.go\<close> uses.\<close>

definition StatusText :: "int \<Rightarrow> string" where
  "StatusText code =
     (if code = 200 then ''OK''
      else if code = 400 then ''Bad Request''
      else if code = 404 then ''Not Found''
      else if code = 406 then ''Not Acceptable''
      else if code = 500 then ''Internal Server Error''
      else [])"

text \<open>The replies of the two list commands, before they are marshalled to JSON.\<close>

datatype proto_ListMachine = proto_ListMachine string string

datatype proto_ListService = proto_ListService string string string string string

datatype payload =
    proto_ListMachines "proto_ListMachine list"
  | proto_ListServices "proto_ListService list"

text \<open>
  What a handler asks of its surroundings: the host's name (\<^verbatim>\<open>osutil.Hostname\<close>), the clock,
  \<^verbatim>\<open>json.Marshal\<close> (\<open>Inl\<close> is its error) and the RFC1123 formatting of a time.
\<close>

record Host =
  Hostname :: string
  Now :: nat
  Marshal :: "payload \<Rightarrow> string + string"
  Format :: "nat \<Rightarrow> string"

definition writeAndExit :: "Session \<Rightarrow> string + string \<Rightarrow> Session" where
  "writeAndExit s r =
     (case r of
        Inl err \<Rightarrow> Exit (WriteString s (StatusText StatusInternalServerError)) StatusInternalServerError
      | Inr data \<Rightarrow> Exit (WriteString s data) 0)"

subsection \<open>The list handlers\<close>

definition ListMachines :: "Host \<Rightarrow> Config \<Rightarrow> Session \<Rightarrow> string list \<Rightarrow> Config \<times> Session" where
  "ListMachines y c s hosts =
     (let lm = proto_ListMachines
                 (map (\<lambda>service. proto_ListMachine (Machine service) (Hostname y)) (Services c))
      in (c, writeAndExit s (Marshal y lm)))"

definition listEntry :: "Host \<Rightarrow> Service \<Rightarrow> proto_ListService" where
  "listEntry y service =
     (case State service of
        (st, msg) \<Rightarrow>
          proto_ListService (Service service) (Hash service) (State_String st) msg
            (Format y (Change service)))"

text \<open>
  The loop of \<^verbatim>\<open>ListService\<close>. The \<^verbatim>\<open>break\<close> of its second case leaves the \<^verbatim>\<open>switch\<close>, not
  the loop, so every matching service is listed.
\<close>

fun ListService_loop ::
  "Host \<Rightarrow> string list \<Rightarrow> string \<Rightarrow> Service list \<Rightarrow> proto_ListService list \<Rightarrow> proto_ListService list"
where
  "ListService_loop y hosts target [] ls = ls"
| "ListService_loop y hosts target (service # rest) ls =
     (if \<not> forMe service hosts then ListService_loop y hosts target rest ls
      else if target = [] then ListService_loop y hosts target rest (ls @ [listEntry y service])
      else if Service service = target
        then ListService_loop y hosts target rest (ls @ [listEntry y service])
      else ListService_loop y hosts target rest ls)"

definition ListService :: "Host \<Rightarrow> Config \<Rightarrow> Session \<Rightarrow> string list \<Rightarrow> Config \<times> Session" where
  "ListService y c s hosts =
     (let target = (if length (Command s) > 1 then Command s ! 1 else []);
          ls = ListService_loop y hosts target (Services c) []
      in if length ls = 0
         then (c, Exit (WriteString s (StatusText StatusNotFound)) StatusNotFound)
         else (c, writeAndExit s (Marshal y (proto_ListServices ls))))"

subsection \<open>Freeze and unfreeze\<close>

text \<open>
  The loop shared by \<^verbatim>\<open>freezeStateService\<close> and \<^verbatim>\<open>RollbackService\<close>: the first service of
  this host with the target's name gets the new state and the loop returns. \<open>None\<close> is the
  loop running to its end. The services are held by pointer, so the update is seen by every
  later session; the model returns the updated list.
\<close>

fun setFirst ::
  "nat \<Rightarrow> string list \<Rightarrow> string \<Rightarrow> State \<Rightarrow> string \<Rightarrow> Service list \<Rightarrow> Service list option"
where
  "setFirst now hosts target st msg [] = None"
| "setFirst now hosts target st msg (service # rest) =
     (if \<not> forMe service hosts
        then map_option ((#) service) (setFirst now hosts target st msg rest)
      else if Service service = target
        then Some (SetState now service st msg # rest)
      else map_option ((#) service) (setFirst now hosts target st msg rest))"

definition freezeStateService ::
  "Host \<Rightarrow> Config \<Rightarrow> Session \<Rightarrow> State \<Rightarrow> string list \<Rightarrow> Config \<times> Session"
where
  "freezeStateService y c s st hosts =
     (if length (Command s) < 2 then (c, Exit s StatusNotAcceptable)
      else let target = Command s ! 1
           in case setFirst (Now y) hosts target st [] (Services c) of
                Some services \<Rightarrow>
                  (c\<lparr>Services := services\<rparr>, Exit (WriteString s (StatusText StatusOK)) 0)
              | None \<Rightarrow> (c, Exit (WriteString s (StatusText StatusNotFound)) StatusNotFound))"

definition FreezeService :: "Host \<Rightarrow> Config \<Rightarrow> Session \<Rightarrow> string list \<Rightarrow> Config \<times> Session" where
  "FreezeService y c s hosts = freezeStateService y c s StateFreeze hosts"

definition UnfreezeService :: "Host \<Rightarrow> Config \<Rightarrow> Session \<Rightarrow> string list \<Rightarrow> Config \<times> Session" where
  "UnfreezeService y c s hosts = freezeStateService y c s StateOK hosts"

subsection \<open>Rollback\<close>

text \<open>
  \<^verbatim>\<open>hex.DecodeString\<close> of the Go library: pairs of hexadecimal digits, upper or lower case,
  become bytes; the first character that is no digit is reported, and an odd length is
  reported when every character is a digit.
\<close>

datatype hex_error = InvalidByteError char | ErrLength

definition fromHexChar :: "char \<Rightarrow> nat option" where
  "fromHexChar ch =
     (let n = (of_char ch :: nat)
      in if 48 \<le> n \<and> n \<le> 57 then Some (n - 48)
         else if 97 \<le> n \<and> n \<le> 102 then Some (n - 97 + 10)
         else if 65 \<le> n \<and> n \<le> 70 then Some (n - 65 + 10)
         else None)"

fun DecodeString :: "string \<Rightarrow> hex_error + nat list" where
  "DecodeString [] = Inr []"
| "DecodeString [p] =
     (case fromHexChar p of None \<Rightarrow> Inl (InvalidByteError p) | Some a \<Rightarrow> Inl ErrLength)"
| "DecodeString (p # q # rest) =
     (case fromHexChar p of
        None \<Rightarrow> Inl (InvalidByteError p)
      | Some a \<Rightarrow>
          (case fromHexChar q of
             None \<Rightarrow> Inl (InvalidByteError q)
           | Some b \<Rightarrow>
               (case DecodeString rest of
                  Inl e \<Rightarrow> Inl e
                | Inr bytes \<Rightarrow> Inr ((a * 16 + b) # bytes))))"

definition RollbackService :: "Host \<Rightarrow> Config \<Rightarrow> Session \<Rightarrow> string list \<Rightarrow> Config \<times> Session" where
  "RollbackService y c s hosts =
     (if length (Command s) < 3 then (c, s)
      else let target = Command s ! 1; hash = Command s ! 2
           in case DecodeString hash of
                Inl err \<Rightarrow>
                  (c, Exit (WriteString s (StatusText StatusNotAcceptable @ '', not a valid git hash: '' @ hash))
                        StatusNotAcceptable)
              | Inr bytes \<Rightarrow>
                  (case setFirst (Now y) hosts target StateRollback hash (Services c) of
                     Some services \<Rightarrow>
                       (c\<lparr>Services := services\<rparr>, Exit (WriteString s (StatusText StatusOK)) 0)
                   | None \<Rightarrow>
                       (c, Exit (WriteString s (StatusText StatusNotFound)) StatusNotFound)))"

subsection \<open>The router\<close>

definition routes :: "string \<rightharpoonup> (Host \<Rightarrow> Config \<Rightarrow> Session \<Rightarrow> string list \<Rightarrow> Config \<times> Session)" where
  "routes =
     [''/list/machine'' \<mapsto> ListMachines,
      ''/list/service'' \<mapsto> ListService,
      ''/state/freeze'' \<mapsto> FreezeService,
      ''/state/unfreeze'' \<mapsto> UnfreezeService,
      ''/state/rollback'' \<mapsto> RollbackService]"

text \<open>
  The handler that \<^verbatim>\<open>newRouter\<close> installs. Go visits the keys of a map in an order it does
  not specify; \<open>order\<close> is the order of one such visit, a list of the keys of \<open>routes\<close>.
\<close>

fun dispatch ::
  "string list \<Rightarrow> Host \<Rightarrow> Config \<Rightarrow> Session \<Rightarrow> string list \<Rightarrow> Config \<times> Session"
where
  "dispatch [] y c s hosts =
     (c, Exit (WriteString s (StatusText StatusNotFound)) StatusNotFound)"
| "dispatch (pre # rest) y c s hosts =
     (case routes pre of
        Some f \<Rightarrow> if prefix pre (Command s ! 0) then f y c s hosts else dispatch rest y c s hosts
      | None \<Rightarrow> dispatch rest y c s hosts)"

definition newRouter ::
  "string list \<Rightarrow> Host \<Rightarrow> Config \<Rightarrow> string list \<Rightarrow> Session \<Rightarrow> Config \<times> Session"
where
  "newRouter order y c hosts s =
     (if length (Command s) = 0
      then (c, Exit (WriteString s (StatusText StatusBadRequest)) StatusBadRequest)
      else dispatch order y c s hosts)"

text \<open>The keys of \<open>routes\<close> in the order of the source text, one of the possible visits.\<close>

definition sourceOrder :: "string list" where
  "sourceOrder =
     [''/list/machine'', ''/list/service'', ''/state/freeze'', ''/state/unfreeze'',
      ''/state/rollback'']"

subsection \<open>What the spec calls a valid hash\<close>

definition isHexDigit :: "char \<Rightarrow> bool" where
  "isHexDigit ch = (fromHexChar ch \<noteq> None)"

text \<open>The spec's words, not the code's: a 40-character hexadecimal string.\<close>

definition isHash40 :: "string \<Rightarrow> bool" where
  "isHash40 h = (length h = 40 \<and> list_all isHexDigit h)"

subsection \<open>Example data\<close>

definition exampleHost :: Host where
  "exampleHost =
     \<lparr>Hostname = ''alpha'', Now = 1000, Marshal = (\<lambda>p. Inr ''{}''),
      Format = (\<lambda>t. ''Thu, 01 Jan 1970 00:00:00 UTC'')\<rparr>"

definition webService :: Service where
  "webService =
     \<lparr>Machine = ''alpha'', Service = ''web'', Upstream = ''git://x/r.git'', Mount = ''/srv/web'',
      Package = [], state = StateOK, info = [], change = 0, hash = []\<rparr>"

definition dbService :: Service where
  "dbService =
     \<lparr>Machine = ''beta'', Service = ''db'', Upstream = ''git://x/r.git'', Mount = ''/srv/db'',
      Package = [], state = StateOK, info = [], change = 0, hash = []\<rparr>"

definition globalService :: Service where
  "globalService =
     \<lparr>Machine = [], Service = [], Upstream = ''git://x/r.git'', Mount = [],
      Package = [], state = StateOK, info = [], change = 0, hash = []\<rparr>"

definition exampleConfig :: Config where
  "exampleConfig =
     \<lparr>Global = globalService, Services = [dbService, webService], Keys = \<lparr>Path = []\<rparr>\<rparr>"

definition session :: "string list \<Rightarrow> Session" where
  "session cmd = \<lparr>Command = cmd, stdout = [], status = None\<rparr>"

section \<open>The supervisor (main.go)\<close>

subsection \<open>Errors, signals and observable steps\<close>

text \<open>
  The errors \<^verbatim>\<open>run\<close> returns: its three sentinels, the \<^verbatim>\<open>RepoPullError\<close> of the bootstrap
  (machine, upstream, underlying error), the errors it builds with \<^verbatim>\<open>fmt.Errorf\<close> (format and
  argument) and the errors of its collaborators that it passes on. An error of a
  collaborator (git, the file system, a listener) is an opaque message.
\<close>

datatype error =
    ErrNotRoot
  | ErrNoConfig
  | ErrHUP
  | RepoPullError string string string
  | Errorf string string
  | External string

text \<open>
  \<^verbatim>\<open>errors.Is(err, ErrHUP)\<close>: the sentinel itself, or an error that unwraps to it. A
  \<^verbatim>\<open>RepoPullError\<close> unwraps to the error of a collaborator, \<^verbatim>\<open>fmt.Errorf\<close> with \<^verbatim>\<open>%v\<close> does not wrap.
\<close>

fun Is_ErrHUP :: "error \<Rightarrow> bool" where
  "Is_ErrHUP ErrHUP = True"
| "Is_ErrHUP e = False"

text \<open>The signals \<^verbatim>\<open>run\<close> subscribes to with \<^verbatim>\<open>signal.Notify\<close>.\<close>

datatype Signal = SIGINT | SIGTERM | SIGHUP

text \<open>
  The steps of \<^verbatim>\<open>run\<close> that leave the process: calls of collaborators, warnings (by their
  format string) and goroutines started. Informational log lines are left out.
\<close>

datatype event =
    Call_Checkout Service
  | Call_Pull Service
  | Call_ReadFile string
  | Call_Listen string
  | Call_Install string
  | Call_bindmount Service
  | Call_systemctl Service
  | Log_Warning string
  | Go_trackUpstream Service
  | Go_trackConfig string

text \<open>
  The collaborators of \<^verbatim>\<open>main.go\<close>, none of them defined in the sources read here; the model
  takes their answers as given. An error is \<open>Some\<close> message, or \<open>Inl\<close> message where a value
  is returned too. \<open>Checkout\<close>, \<open>gitPull\<close>, \<open>bindmount\<close> and \<open>systemctl\<close> take the service they
  act on; \<open>merge\<close> takes the service and the global template; \<open>Delivered\<close> is the first value
  received from the channel \<^verbatim>\<open>done\<close>. The last three fields are collaborators of the first
  \<^verbatim>\<open>main\<close> of \<^verbatim>\<open>main.go\<close> only, whose \<^verbatim>\<open>merge\<close> takes the duration and whose \<^verbatim>\<open>bindmount\<close>
  returns an error alone.
\<close>

record World =
  Geteuid :: nat
  osHostname :: string
  Clock :: nat
  selfService :: "string \<Rightarrow> string \<Rightarrow> string \<Rightarrow> string \<Rightarrow> Service option"
  Checkout :: "Service \<Rightarrow> string option"
  gitPull :: "Service \<Rightarrow> string option"
  Join :: "string \<Rightarrow> string \<Rightarrow> string"
  IsAbs :: "string \<Rightarrow> bool"
  ReadFile :: "string \<Rightarrow> string + string"
  parseConfig :: "string \<Rightarrow> string + Config"
  Valid :: "Config \<Rightarrow> string option"
  ParseAuthorizedKey :: "string \<Rightarrow> string + string"
  Listen :: "string \<Rightarrow> string option"
  Install :: "string \<Rightarrow> string option"
  merge :: "Service \<Rightarrow> Service \<Rightarrow> Service"
  bindmount :: "Service \<Rightarrow> string + nat"
  systemctl :: "Service \<Rightarrow> string option"
  Sprintf :: "string \<Rightarrow> string list \<Rightarrow> string"
  Delivered :: Signal
  Unmarshal :: "string \<Rightarrow> string + Config"
  mergeDuration :: "Service \<Rightarrow> Service \<Rightarrow> int \<Rightarrow> Service"
  bindmountLegacy :: "Service \<Rightarrow> string option"

text \<open>
  Sequencing of fallible steps: the first error ends the sequence, and the steps taken so
  far are kept.
\<close>

definition andThen ::
  "(error + 'a) \<times> event list \<Rightarrow> ('a \<Rightarrow> (error + 'b) \<times> event list) \<Rightarrow> (error + 'b) \<times> event list"
where
  "andThen m f =
     (case m of
        (Inl e, tr) \<Rightarrow> (Inl e, tr)
      | (Inr x, tr) \<Rightarrow> (case f x of (r, tr') \<Rightarrow> (r, tr @ tr')))"

subsection \<open>Bootstrap, configuration, keys and listeners\<close>

text \<open>The path of \<open>p\<close> inside the checked-out tree of the bootstrap service.\<close>

definition inTree :: "World \<Rightarrow> Service \<Rightarrow> ExecContext \<Rightarrow> string \<Rightarrow> string" where
  "inTree w self exec p =
     Join w (Join w (Join w (Mount self) (Service self)) (Dir exec)) p"

definition bootstrap ::
  "World \<Rightarrow> ExecContext \<Rightarrow> Service option \<Rightarrow> (error + ExecContext) \<times> event list"
where
  "bootstrap w exec self' =
     (case self' of
        None \<Rightarrow> (Inr exec, [])
      | Some self \<Rightarrow>
          (case Checkout w self of
             Some err \<Rightarrow>
               (Inl (RepoPullError (Machine self) (Upstream self) err), [Call_Checkout self])
           | None \<Rightarrow>
               if Pull exec then
                 (case gitPull w self of
                    Some err \<Rightarrow>
                      (Inl (RepoPullError (Machine self) (Upstream self) err),
                       [Call_Checkout self, Call_Pull self])
                  | None \<Rightarrow>
                      (Inr (exec\<lparr>ConfigSource := inTree w self exec (ConfigSource exec)\<rparr>),
                       [Call_Checkout self, Call_Pull self]))
               else
                 (Inr (exec\<lparr>ConfigSource := inTree w self exec (ConfigSource exec)\<rparr>),
                  [Call_Checkout self])))"

definition loadConfig ::
  "World \<Rightarrow> ExecContext \<Rightarrow> Service option \<Rightarrow> (error + Config) \<times> event list"
where
  "loadConfig w exec self' =
     (case ReadFile w (ConfigSource exec) of
        Inl err \<Rightarrow> (Inl (Errorf ''reading config: %v'' err), [Call_ReadFile (ConfigSource exec)])
      | Inr doc \<Rightarrow>
          (case parseConfig w doc of
             Inl err \<Rightarrow>
               (Inl (Errorf ''parsing config: %v'' err), [Call_ReadFile (ConfigSource exec)])
           | Inr c \<Rightarrow>
               (case Valid w c of
                  Some err \<Rightarrow>
                    (Inl (Errorf ''validating config: %v'' err),
                     [Call_ReadFile (ConfigSource exec)])
                | None \<Rightarrow>
                    (case self' of
                       None \<Rightarrow> (Inr c, [Call_ReadFile (ConfigSource exec)])
                     | Some self \<Rightarrow>
                         (Inr (c\<lparr>Services := Services c @ [self]\<rparr>),
                          [Call_ReadFile (ConfigSource exec)])))))"

fun loadKeys ::
  "World \<Rightarrow> ExecContext \<Rightarrow> Service option \<Rightarrow> string list \<Rightarrow> (error + string list) \<times> event list"
where
  "loadKeys w exec self' [] = (Inr [], [])"
| "loadKeys w exec self' (p # ps) =
     (let p1 = (case self' of
                  None \<Rightarrow> p
                | Some self \<Rightarrow> if \<not> IsAbs w p then inTree w self exec p else p)
      in case ReadFile w p1 of
           Inl err \<Rightarrow> (Inl (External err), [Call_ReadFile p1])
         | Inr data \<Rightarrow>
             (case ParseAuthorizedKey w data of
                Inl err \<Rightarrow> (Inl (External err), [Call_ReadFile p1])
              | Inr a \<Rightarrow>
                  (case loadKeys w exec self' ps of
                     (Inl e, tr) \<Rightarrow> (Inl e, Call_ReadFile p1 # tr)
                   | (Inr allowed, tr) \<Rightarrow> (Inr (a # allowed), Call_ReadFile p1 # tr))))"

definition serveSSH :: "World \<Rightarrow> ExecContext \<Rightarrow> (error + unit) \<times> event list" where
  "serveSSH w exec =
     (case Listen w (SAddr exec) of
        Some err \<Rightarrow> (Inl (External err), [Call_Listen (SAddr exec)])
      | None \<Rightarrow> (Inr (), [Call_Listen (SAddr exec)]))"

definition serveMonitoring :: "World \<Rightarrow> ExecContext \<Rightarrow> (error + unit) \<times> event list" where
  "serveMonitoring w exec =
     (case Listen w (MAddr exec) of
        Some err \<Rightarrow> (Inl (External err), [Call_Listen (MAddr exec)])
      | None \<Rightarrow> (Inr (), [Call_Listen (MAddr exec)]))"

text \<open>
  \<^verbatim>\<open>run\<close> up to the loop over the services: the checks, the bootstrap, the configuration
  (with the bootstrap service appended), the keys and the two listeners. In the bootstrap
  the configuration path is rewritten with the \<^verbatim>\<open>-D\<close> directory of the command line, and the
  same directory is used for the relative key paths.
\<close>

definition startup :: "World \<Rightarrow> ExecContext \<Rightarrow> (error + ExecContext \<times> Config) \<times> event list" where
  "startup w exec =
     (if Geteuid w \<noteq> 0 then (Inl ErrNotRoot, [])
      else if ConfigSource exec = [] then (Inl ErrNoConfig, [])
      else
        let self' = selfService w (ExecContext.Upstream exec) (Branch exec)
                      (ExecContext.Mount exec) (Dir exec)
        in andThen (bootstrap w exec self') (\<lambda>exec1.
           andThen (loadConfig w exec1 self') (\<lambda>c.
           andThen (loadKeys w exec1 self' (Path (Keys c))) (\<lambda>allowed.
           andThen (serveSSH w exec1) (\<lambda>u.
           andThen (serveMonitoring w exec1) (\<lambda>u. (Inr (exec1, c), [])))))))"

subsection \<open>The loop over the services\<close>

text \<open>
  One pass of the loop body for a service of this host: the service as the pass leaves it,
  whether a worker was started for it, and the steps taken.
\<close>

definition startService :: "World \<Rightarrow> Service \<Rightarrow> Service \<Rightarrow> Service \<times> bool \<times> event list" where
  "startService w global serv =
     (let s = merge w serv global;
          tr0 = (if Package s \<noteq> [] then [Call_Install (Package s)] else [])
      in if Package s \<noteq> [] \<and> Install w (Package s) \<noteq> None
         then (s, False, tr0 @ [Log_Warning ''Machine %q, error installing package %q: %s''])
         else
           (case Checkout w s of
              Some err \<Rightarrow>
                (SetState (Clock w) s StateBroken
                   (Sprintf w ''error pulling %q: %s'' [Upstream s, err]),
                 False,
                 tr0 @ [Call_Checkout s, Log_Warning ''Machine %q, error pulling repo %q: %s''])
            | None \<Rightarrow>
                (case bindmount w s of
                   Inl err \<Rightarrow>
                     (SetState (Clock w) s StateBroken
                        (Sprintf w ''error setting up bind mounts repo %q: %s'' [Upstream s, err]),
                      False,
                      tr0 @ [Call_Checkout s, Call_bindmount s,
                             Log_Warning ''Machine %q, error setting up bind mounts for %q: %s''])
                 | Inr mounts \<Rightarrow>
                     if mounts > 0 then
                       (case systemctl w s of
                          Some err \<Rightarrow>
                            (let s1 = SetState (Clock w) s StateBroken
                                        (Sprintf w ''error running systemctl %q: %s'' [Upstream s, err])
                             in (s1, True,
                                 tr0 @ [Call_Checkout s, Call_bindmount s, Call_systemctl s,
                                        Log_Warning ''Machine %q, error running systemctl: %s'',
                                        Go_trackUpstream s1]))
                        | None \<Rightarrow>
                            (s, True,
                             tr0 @ [Call_Checkout s, Call_bindmount s, Call_systemctl s,
                                    Go_trackUpstream s]))
                     else
                       (s, True, tr0 @ [Call_Checkout s, Call_bindmount s, Go_trackUpstream s]))))"

text \<open>
  The loop: the counter \<^verbatim>\<open>servCnt\<close>, the services of this host with the outcome of their
  pass, and the steps taken.
\<close>

fun startServices ::
  "World \<Rightarrow> string list \<Rightarrow> Service \<Rightarrow> Service list \<Rightarrow> nat \<Rightarrow> nat \<times> (Service \<times> bool) list \<times> event list"
where
  "startServices w hosts global [] servCnt = (servCnt, [], [])"
| "startServices w hosts global (serv # rest) servCnt =
     (if \<not> forMe serv hosts then startServices w hosts global rest servCnt
      else
        case startService w global serv of
          (s, spawned, tr) \<Rightarrow>
            (case startServices w hosts global rest (servCnt + 1) of
               (n, started, tr') \<Rightarrow> (n, (s, spawned) # started, tr @ tr')))"

subsection \<open>run and main\<close>

text \<open>
  What \<^verbatim>\<open>run\<close> returned (\<open>None\<close> is \<^verbatim>\<open>nil\<close>), the services of this host as the loop left them,
  each with the flag of a started worker, and the steps taken. After the loop \<^verbatim>\<open>run\<close> waits
  for the first value on \<^verbatim>\<open>done\<close>, cancels the workers, waits for them and returns; the
  model takes that value from the world and lets the wait end.
\<close>

record Outcome =
  returned :: "error option"
  started :: "(Service \<times> bool) list"
  trace :: "event list"

definition run :: "World \<Rightarrow> ExecContext \<Rightarrow> Outcome" where
  "run w exec =
     (case startup w exec of
        (Inl e, tr) \<Rightarrow> \<lparr>returned = Some e, started = [], trace = tr\<rparr>
      | (Inr (exec1, c), tr) \<Rightarrow>
          (case startServices w (Hosts exec1) (Global c) (Services c) 0 of
             (servCnt, ss, tr') \<Rightarrow>
               if servCnt = 0
               then \<lparr>returned = None, started = ss,
                     trace = tr @ tr' @ [Log_Warning ''No services found for machine: %v, exiting'']\<rparr>
               else
                 \<lparr>returned = (if Delivered w = SIGHUP then Some ErrHUP else None),
                  started = ss,
                  trace = tr @ tr' @
                    (if Restart exec1 then [Go_trackConfig (ConfigSource exec1)] else [])\<rparr>))"

text \<open>
  \<^verbatim>\<open>main\<close>: the host's own name comes first in the host-identity set and the names given
  with \<^verbatim>\<open>-h\<close> follow it. \<open>flags\<close> holds the parsed command line, its \<open>Hosts\<close> the names given
  with \<^verbatim>\<open>-h\<close>. The result is the exit status of the process: 0 when \<^verbatim>\<open>main\<close> returns, 2 from
  \<^verbatim>\<open>os.Exit(2)\<close>, and the status 1 that \<^verbatim>\<open>log.Fatal\<close> exits with.
\<close>

text \<open>
  Modelled from the spec: the flag type \<^verbatim>\<open>sliceFlag\<close> of \<^verbatim>\<open>-h\<close> is missing from the sources.
  The spec: the host-identity set is the host's own name plus any impersonated aliases.
\<close>

definition hostIdentity :: "World \<Rightarrow> ExecContext \<Rightarrow> string list" where
  "hostIdentity w flags = osHostname w # Hosts flags"

definition main :: "World \<Rightarrow> ExecContext \<Rightarrow> int" where
  "main w flags =
     (let exec = flags\<lparr>Hosts := hostIdentity w flags\<rparr>
      in case returned (run w exec) of
           None \<Rightarrow> 0
         | Some err \<Rightarrow> if Is_ErrHUP err then 2 else 1)"

section \<open>The first main of main.go: the pull duration\<close>

subsection \<open>Durations\<close>

text \<open>A \<^verbatim>\<open>time.Duration\<close> counts nanoseconds in a signed 64-bit integer.\<close>

definition Nanosecond :: int where "Nanosecond = 1"
definition Microsecond :: int where "Microsecond = 1000 * Nanosecond"
definition Millisecond :: int where "Millisecond = 1000 * Microsecond"
definition Second :: int where "Second = 1000 * Millisecond"
definition Minute :: int where "Minute = 60 * Second"
definition Hour :: int where "Hour = 60 * Minute"

text \<open>
  \<^verbatim>\<open>time.ParseDuration\<close> of the Go library: an optional sign, then one or more decimal
  numbers, each with an optional fraction and a unit. The integer parts and the running sum
  are unsigned 64-bit integers with the library's overflow checks. The library evaluates a
  fraction in 64-bit floating point; the model evaluates it exactly and truncates.
\<close>

datatype duration_error = InvalidDuration | MissingUnit | UnknownUnit string

definition isDigit :: "char \<Rightarrow> bool" where
  "isDigit ch = (48 \<le> (of_char ch :: nat) \<and> (of_char ch :: nat) \<le> 57)"

definition unitMap :: "string \<rightharpoonup> nat" where
  "unitMap =
     [''ns'' \<mapsto> nat Nanosecond,
      ''us'' \<mapsto> nat Microsecond,
      [CHR 0xC2, CHR 0xB5, CHR ''s''] \<mapsto> nat Microsecond,
      [CHR 0xCE, CHR 0xBC, CHR ''s''] \<mapsto> nat Microsecond,
      ''ms'' \<mapsto> nat Millisecond,
      ''s'' \<mapsto> nat Second,
      ''m'' \<mapsto> nat Minute,
      ''h'' \<mapsto> nat Hour]"

fun leadingInt :: "string \<Rightarrow> nat \<Rightarrow> (nat \<times> string) option" where
  "leadingInt [] x = Some (x, [])"
| "leadingInt (ch # s) x =
     (if \<not> isDigit ch then Some (x, ch # s)
      else if x > 2 ^ 63 div 10 then None
      else let x1 = x * 10 + (of_char ch - 48)
           in if x1 > 2 ^ 63 then None else leadingInt s x1)"

fun leadingFraction :: "string \<Rightarrow> nat \<Rightarrow> nat \<Rightarrow> bool \<Rightarrow> nat \<times> nat \<times> string" where
  "leadingFraction [] x scale overflow = (x, scale, [])"
| "leadingFraction (ch # s) x scale overflow =
     (if \<not> isDigit ch then (x, scale, ch # s)
      else if overflow then leadingFraction s x scale overflow
      else if x > (2 ^ 63 - 1) div 10 then leadingFraction s x scale True
      else let y = x * 10 + (of_char ch - 48)
           in if y > 2 ^ 63 then leadingFraction s x scale True
              else leadingFraction s y (scale * 10) False)"

definition isUnitChar :: "char \<Rightarrow> bool" where
  "isUnitChar ch = (\<not> (ch = CHR ''.'' \<or> isDigit ch))"

text \<open>
  One number with its unit: the nanoseconds it stands for and the rest of the string.
\<close>

definition parseTerm :: "string \<Rightarrow> duration_error + nat \<times> string" where
  "parseTerm s =
     (case s of
        [] \<Rightarrow> Inl InvalidDuration
      | ch # s' \<Rightarrow>
          if \<not> (ch = CHR ''.'' \<or> isDigit ch) then Inl InvalidDuration
          else
            (case leadingInt s 0 of
               None \<Rightarrow> Inl InvalidDuration
             | Some (v, s1) \<Rightarrow>
                 let pre = (length s \<noteq> length s1);
                     frac = (case s1 of
                               [] \<Rightarrow> (0, 1, s1, False)
                             | ch1 # s1' \<Rightarrow>
                                 if ch1 = CHR ''.''
                                 then (case leadingFraction s1' 0 1 False of
                                         (f, scale, s2) \<Rightarrow> (f, scale, s2, length s1' \<noteq> length s2))
                                 else (0, 1, s1, False))
                 in case frac of
                      (f, scale, s2, post) \<Rightarrow>
                        if \<not> pre \<and> \<not> post then Inl InvalidDuration
                        else
                          let u = takeWhile isUnitChar s2; s3 = dropWhile isUnitChar s2
                          in if u = [] then Inl MissingUnit
                             else
                               (case unitMap u of
                                  None \<Rightarrow> Inl (UnknownUnit u)
                                | Some unit \<Rightarrow>
                                    if v > 2 ^ 63 div unit then Inl InvalidDuration
                                    else
                                      let v1 = v * unit + (if f > 0 then f * unit div scale else 0)
                                      in if f > 0 \<and> v1 > 2 ^ 63 then Inl InvalidDuration
                                         else Inr (v1, s3))))"

text \<open>
  The loop over the numbers of a duration; \<open>fuel\<close> bounds its passes, and every pass
  consumes at least the characters of a unit, so the length of the string is enough.
\<close>

fun parseTerms :: "nat \<Rightarrow> string \<Rightarrow> nat \<Rightarrow> duration_error + nat" where
  "parseTerms fuel [] d = Inr d"
| "parseTerms 0 (ch # s) d = Inl InvalidDuration"
| "parseTerms (Suc fuel) (ch # s) d =
     (case parseTerm (ch # s) of
        Inl e \<Rightarrow> Inl e
      | Inr (v, s3) \<Rightarrow>
          let d1 = (d + v) mod 2 ^ 64
          in if d1 > 2 ^ 63 then Inl InvalidDuration else parseTerms fuel s3 d1)"

definition ParseDuration :: "string \<Rightarrow> duration_error + int" where
  "ParseDuration orig =
     (let neg = (case orig of [] \<Rightarrow> False | ch # s \<Rightarrow> ch = CHR ''-'');
          s = (case orig of
                 [] \<Rightarrow> []
               | ch # s' \<Rightarrow> if ch = CHR ''-'' \<or> ch = CHR ''+'' then s' else orig)
      in if s = ''0'' then Inr 0
         else if s = [] then Inl InvalidDuration
         else
           (case parseTerms (length s) s 0 of
              Inl e \<Rightarrow> Inl e
            | Inr d \<Rightarrow>
                if neg then Inr (if d = 2 ^ 63 then - (2 ^ 63) else - int d)
                else if d > 2 ^ 63 - 1 then Inl InvalidDuration
                else Inr (int d)))"

subsection \<open>The first main\<close>

text \<open>
  The flags of the first \<^verbatim>\<open>main\<close> of \<^verbatim>\<open>main.go\<close>, and the values they have when the command
  line does not give them.
\<close>

record Flags =
  flagConfig :: string
  flagDuration :: string
  flagAddr :: string

definition defaultFlags :: Flags where
  "defaultFlags = \<lparr>flagConfig = [], flagDuration = ''30s'', flagAddr = '':8000''\<rparr>"

text \<open>A fatal exit (\<^verbatim>\<open>log.Fatal\<close>, \<^verbatim>\<open>log.Fatalf\<close>), by its message or format string.\<close>

datatype fatal = Fatal string

text \<open>
  The loop of the first \<^verbatim>\<open>main\<close>: every service is merged with the global template and the
  duration, checked out (a failure is logged and nothing else), bind-mounted (a failure is
  fatal) and given a worker. There is no host filter in this \<^verbatim>\<open>main\<close>.
\<close>

fun legacyLoop ::
  "World \<Rightarrow> Service \<Rightarrow> int \<Rightarrow> Service list \<Rightarrow> (fatal + Service list) \<times> event list"
where
  "legacyLoop w global duration [] = (Inr [], [])"
| "legacyLoop w global duration (s # rest) =
     (let s1 = mergeDuration w s global duration;
          tr = Call_Checkout s1 #
                 (if Checkout w s1 \<noteq> None
                  then [Log_Warning ''Machine %q, error checking out: %s''] else []) @
                 [Call_bindmount s1]
      in case bindmountLegacy w s1 of
           Some err \<Rightarrow> (Inl (Fatal ''Can not setup bind mounts: %s''), tr)
         | None \<Rightarrow>
             (case legacyLoop w global duration rest of
                (Inl f, tr') \<Rightarrow> (Inl f, tr @ Go_trackUpstream s1 # tr')
              | (Inr workers, tr') \<Rightarrow> (Inr (s1 # workers), tr @ Go_trackUpstream s1 # tr')))"

text \<open>
  The first \<^verbatim>\<open>main\<close> up to the start of its HTTP server: a fatal exit, or the workers it
  started, and the steps taken.
\<close>

definition mainLegacy :: "World \<Rightarrow> Flags \<Rightarrow> (fatal + Service list) \<times> event list" where
  "mainLegacy w fl =
     (if flagConfig fl = [] then (Inl (Fatal ''-c flag is mandatory''), [])
      else
        (case ParseDuration (flagDuration fl) of
           Inl err \<Rightarrow> (Inl (Fatal ''invalid -d value: %s''), [])
         | Inr duration \<Rightarrow>
             if duration < 5 * Second then (Inl (Fatal ''invalid -d value (<5s)''), [])
             else
               (case ReadFile w (flagConfig fl) of
                  Inl err \<Rightarrow> (Inl (Fatal err), [Call_ReadFile (flagConfig fl)])
                | Inr doc \<Rightarrow>
                    (case Unmarshal w doc of
                       Inl err \<Rightarrow> (Inl (Fatal err), [Call_ReadFile (flagConfig fl)])
                     | Inr c \<Rightarrow>
                         (case Valid w c of
                            Some err \<Rightarrow>
                              (Inl (Fatal ''The configuration is not valid: %s''),
                               [Call_ReadFile (flagConfig fl)])
                          | None \<Rightarrow>
                              (case legacyLoop w (Global c) duration (Services c) of
                                 (r, tr) \<Rightarrow> (r, Call_ReadFile (flagConfig fl) # tr)))))))"

section \<open>Example worlds\<close>

text \<open>A world in which the process is root and every collaborator succeeds.\<close>

definition exampleWorld :: World where
  "exampleWorld =
     \<lparr>Geteuid = 0, osHostname = ''alpha'', Clock = 1000,
      selfService = (\<lambda>upstream branch mount dir. None),
      Checkout = (\<lambda>s. None),
      gitPull = (\<lambda>s. None),
      Join = (\<lambda>a b. a @ ''/'' @ b),
      IsAbs = (\<lambda>p. case p of [] \<Rightarrow> False | ch # r \<Rightarrow> ch = CHR ''/''),
      ReadFile = (\<lambda>p. Inr p),
      parseConfig = (\<lambda>doc. Inr exampleConfig),
      Valid = (\<lambda>c. None),
      ParseAuthorizedKey = (\<lambda>data. Inr data),
      Listen = (\<lambda>addr. None),
      Install = (\<lambda>pkg. None),
      merge = (\<lambda>s global. s),
      bindmount = (\<lambda>s. Inr 1),
      systemctl = (\<lambda>s. None),
      Sprintf = (\<lambda>format args. format),
      Delivered = SIGTERM,
      Unmarshal = (\<lambda>doc. Inr exampleConfig),
      mergeDuration = (\<lambda>s global duration. s),
      bindmountLegacy = (\<lambda>s. None)\<rparr>"

definition exampleFlags :: ExecContext where
  "exampleFlags =
     \<lparr>Hosts = [], ConfigSource = ''gitopper.toml'', SAddr = '':2222'', MAddr = '':9222'',
      Debug = False, Restart = False, Upstream = [], Dir = ''gitopper'', Branch = ''main'',
      Mount = [], Pull = False\<rparr>"

text \<open>A bootstrap service, as \<^verbatim>\<open>selfService\<close> may return it.\<close>

definition selfExample :: Service where
  "selfExample =
     \<lparr>Machine = ''alpha'', Service = ''gitopper-alpha'', Upstream = ''git://x/conf.git'',
      Mount = ''/srv/self'', Package = [], state = StateOK, info = [], change = 0, hash = []\<rparr>"

text \<open>A configuration whose only service of host \<open>alpha\<close> needs a package.\<close>

definition pkgConfig :: Config where
  "pkgConfig =
     \<lparr>Global = globalService, Services = [webService\<lparr>Package := ''nginx''\<rparr>],
      Keys = \<lparr>Path = []\<rparr>\<rparr>"


section \<open>Reading traces\<close>

text \<open>The services handed to \<^verbatim>\<open>trackUpstream\<close> in a trace, in the order of their start.\<close>

fun workersOf :: "event list \<Rightarrow> Service list" where
  "workersOf [] = []"
| "workersOf (Go_trackUpstream s # tr) = s # workersOf tr"
| "workersOf (e # tr) = workersOf tr"

text \<open>
  The startup steps of a service all succeed: the package, when it names one, installs, the
  checkout succeeds and so do the bind mounts.
\<close>

definition startsClean :: "World \<Rightarrow> Service \<Rightarrow> Service \<Rightarrow> bool" where
  "startsClean w global serv =
     (let s = merge w serv global
      in (Package s = [] \<or> Install w (Package s) = None) \<and>
         Checkout w s = None \<and>
         (case bindmount w s of Inl err \<Rightarrow> False | Inr mounts \<Rightarrow> True))"

section \<open>Properties of the control plane\<close>

subsection \<open>Helper lemmas\<close>

lemma DecodeString_fails:
  "(\<exists>e. DecodeString h = Inl e) \<longleftrightarrow> odd (length h) \<or> (\<exists>ch\<in>set h. fromHexChar ch = None)"
  by (induction h rule: DecodeString.induct) (auto split: option.splits sum.splits)

lemma DecodeString_Inl_iff:
  "(\<exists>e. DecodeString h = Inl e) \<longleftrightarrow> odd (length h) \<or> \<not> list_all isHexDigit h"
  unfolding DecodeString_fails by (auto simp: list_all_iff isHexDigit_def)

lemma setFirst_None:
  "setFirst now hosts t st m ss = None \<longleftrightarrow> (\<forall>sv\<in>set ss. \<not> (forMe sv hosts \<and> Service sv = t))"
  by (induction ss) auto

lemma setFirst_Some:
  "i < length ss \<Longrightarrow> forMe (ss ! i) hosts \<Longrightarrow> Service (ss ! i) = t \<Longrightarrow>
   (\<forall>j<i. \<not> (forMe (ss ! j) hosts \<and> Service (ss ! j) = t)) \<Longrightarrow>
   setFirst now hosts t st m ss = Some (ss[i := SetState now (ss ! i) st m])"
proof (induction ss arbitrary: i)
  case Nil
  then show ?case by simp
next
  case (Cons a ss)
  show ?case
  proof (cases i)
    case 0
    with Cons.prems show ?thesis by simp
  next
    case (Suc k)
    with Cons.prems have a: "\<not> (forMe a hosts \<and> Service a = t)" by auto
    from Suc Cons.prems have "setFirst now hosts t st m ss = Some (ss[k := SetState now (ss ! k) st m])"
      by (intro Cons.IH) auto
    with a Suc show ?thesis by auto
  qed
qed

lemma dom_routes:
  "dom routes = {''/list/machine'', ''/list/service'', ''/state/freeze'', ''/state/unfreeze'', ''/state/rollback''}"
  by (auto simp: routes_def split: if_splits)

lemma routes_prefix_unique:
  assumes "p \<in> dom routes" "q \<in> dom routes" "prefix p t" "prefix q t"
  shows "p = q"
proof -
  from assms(3,4) have "prefix p q \<or> prefix q p"
    using prefix_same_cases by blast
  with assms(1,2) show ?thesis
    unfolding dom_routes by (elim insertE emptyE disjE; simp)
qed

lemma dispatch_hit:
  "set ks \<subseteq> dom routes \<Longrightarrow> p \<in> set ks \<Longrightarrow> routes p = Some f \<Longrightarrow> prefix p (Command s ! 0) \<Longrightarrow>
   dispatch ks y c s hosts = f y c s hosts"
proof (induction ks)
  case Nil
  then show ?case by simp
next
  case (Cons k ks)
  from Cons.prems(1) obtain g where g: "routes k = Some g" by auto
  show ?case
  proof (cases "prefix k (Command s ! 0)")
    case True
    have "k = p" using routes_prefix_unique[of k p "Command s ! 0"] Cons.prems g True by auto
    with g Cons.prems True show ?thesis by simp
  next
    case False
    with Cons.prems have "p \<in> set ks" by auto
    with Cons False g show ?thesis by simp
  qed
qed

lemma newRouter_hit:
  assumes "set order = dom routes" and "Command s = tok # args"
    and "routes p = Some f" and "prefix p tok"
  shows "newRouter order y c hosts s = f y c s hosts"
proof -
  from assms(1,3) have "p \<in> set order" by auto
  with assms show ?thesis
    by (simp add: newRouter_def dispatch_hit [where p = p and f = f])
qed

lemma set_sourceOrder: "set sourceOrder = dom routes"
  by (simp add: dom_routes sourceOrder_def)

lemma routes_freeze: "routes ''/state/freeze'' = Some FreezeService"
  by (simp add: routes_def)

lemma routes_unfreeze: "routes ''/state/unfreeze'' = Some UnfreezeService"
  by (simp add: routes_def)

lemma routes_rollback: "routes ''/state/rollback'' = Some RollbackService"
  by (simp add: routes_def)

lemmas handler_defs = freezeStateService_def FreezeService_def UnfreezeService_def
  RollbackService_def WriteString_def Exit_def StatusText_def StatusOK_def StatusNotFound_def
  StatusNotAcceptable_def StatusBadRequest_def forMe_def SetState_def session_def Let_def

lemmas example_defs = exampleConfig_def exampleHost_def webService_def dbService_def
  globalService_def

lemma freezeStateService_found:
  assumes "1 < length (Command s)" and "i < length (Services c)"
    and "forMe (Services c ! i) hosts" and "Service (Services c ! i) = Command s ! 1"
    and "\<forall>j<i. \<not> (forMe (Services c ! j) hosts \<and> Service (Services c ! j) = Command s ! 1)"
  shows "freezeStateService y c s st hosts =
           (c\<lparr>Services := (Services c)[i := SetState (Now y) (Services c ! i) st []]\<rparr>,
            Exit (WriteString s (StatusText StatusOK)) 0)"
  using assms setFirst_Some [of i "Services c" hosts "Command s ! 1" "Now y" st "[]"]
  by (simp add: freezeStateService_def Let_def)

lemma freezeStateService_missing:
  assumes "1 < length (Command s)"
    and "\<forall>sv\<in>set (Services c). \<not> (forMe sv hosts \<and> Service sv = Command s ! 1)"
  shows "freezeStateService y c s st hosts =
           (c, Exit (WriteString s (StatusText StatusNotFound)) StatusNotFound)"
proof -
  from assms(2) have "setFirst (Now y) hosts (Command s ! 1) st [] (Services c) = None"
    by (simp add: setFirst_None)
  with assms(1) show ?thesis
    by (simp add: freezeStateService_def Let_def)
qed

subsection \<open>Rollback validation\<close>

text \<open>
  Claim C1, as stated, fails: the handler validates the hash with \<^verbatim>\<open>hex.DecodeString\<close>
  alone, so the four-character hash \<open>abcd\<close>, which is not a 40-character hexadecimal
  string, is accepted and the named service is put into the rollback state.
\<close>

theorem rollback_accepts_short_hash:
  "\<not> isHash40 ''abcd'' \<and>
   RollbackService exampleHost exampleConfig (session [''/state/rollback'', ''web'', ''abcd'']) [''alpha'']
     = (exampleConfig\<lparr>Services :=
          [dbService, webService\<lparr>state := StateRollback, info := ''abcd'', change := 1000\<rparr>]\<rparr>,
        \<lparr>Command = [''/state/rollback'', ''web'', ''abcd''], stdout = ''OK'', status = Some 0\<rparr>)"
  by (simp add: isHash40_def handler_defs example_defs fromHexChar_def)

text \<open>
  Claim C1, amended: for every rollback command with at least three tokens, the command is
  rejected with status 406 and the configuration (every service's state) is unchanged
  exactly when the hash has odd length or holds a character that is no hexadecimal digit;
  every other hash, of whatever length, passes the validation and the command goes on to
  the named service.
\<close>

theorem rollback_rejects_undecodable:
  assumes "3 \<le> length (Command s)"
  shows "RollbackService y c s hosts =
           (if odd (length (Command s ! 2)) \<or> \<not> list_all isHexDigit (Command s ! 2)
            then (c, Exit (WriteString s
                     (StatusText StatusNotAcceptable @ '', not a valid git hash: '' @ Command s ! 2))
                   StatusNotAcceptable)
            else (case setFirst (Now y) hosts (Command s ! 1) StateRollback (Command s ! 2) (Services c) of
                    Some services \<Rightarrow>
                      (c\<lparr>Services := services\<rparr>, Exit (WriteString s (StatusText StatusOK)) 0)
                  | None \<Rightarrow> (c, Exit (WriteString s (StatusText StatusNotFound)) StatusNotFound)))"
proof (cases "DecodeString (Command s ! 2)")
  case (Inl e)
  then have "odd (length (Command s ! 2)) \<or> \<not> list_all isHexDigit (Command s ! 2)"
    using DecodeString_Inl_iff [of "Command s ! 2"] by blast
  with Inl assms show ?thesis
    by (simp add: RollbackService_def Let_def)
next
  case (Inr bytes)
  then have "\<not> (odd (length (Command s ! 2)) \<or> \<not> list_all isHexDigit (Command s ! 2))"
    using DecodeString_Inl_iff [of "Command s ! 2"] by auto
  with Inr assms show ?thesis
    by (simp add: RollbackService_def Let_def)
qed

theorem rollback_rejects_undecodable_witness:
  "3 \<le> length (Command (session [''/state/rollback'', ''web'', ''master''])) \<and>
   \<not> list_all isHexDigit ''master'' \<and>
   RollbackService exampleHost exampleConfig (session [''/state/rollback'', ''web'', ''master'']) [''alpha'']
     = (exampleConfig,
        \<lparr>Command = [''/state/rollback'', ''web'', ''master''],
         stdout = ''Not Acceptable, not a valid git hash: master'', status = Some 406\<rparr>)"
proof -
  have l: "3 \<le> length (Command (session [''/state/rollback'', ''web'', ''master'']))"
    by (simp add: session_def)
  have h: "\<not> list_all isHexDigit ''master''"
    by (simp add: isHexDigit_def fromHexChar_def)
  show ?thesis
    using l h rollback_rejects_undecodable [OF l, of exampleHost exampleConfig "[''alpha'']"]
    by (simp add: handler_defs)
qed

subsection \<open>Freeze and unfreeze\<close>

text \<open>
  Claim C5: for any order in which the router visits its routes, \<open>/state/freeze name\<close> sets
  the state \<open>FREEZE\<close> with empty info and \<open>/state/unfreeze name\<close> the state \<open>OK\<close> with empty
  info, on the first service of this host with that name and on no other service, with the
  reply \<open>OK\<close> and status 0; when no service of this host has that name the reply is
  \<open>Not Found\<close> with status 404 and the configuration is unchanged.
\<close>

theorem freeze_unfreeze_named_service:
  assumes "set order = dom routes"
    and "Command s = tok # name # args"
    and "(tok, st) = (''/state/freeze'', StateFreeze) \<or> (tok, st) = (''/state/unfreeze'', StateOK)"
  shows "((\<forall>sv\<in>set (Services c). \<not> (forMe sv hosts \<and> Service sv = name)) \<longrightarrow>
            newRouter order y c hosts s =
              (c, Exit (WriteString s (StatusText StatusNotFound)) StatusNotFound)) \<and>
         (\<forall>i. i < length (Services c) \<and> forMe (Services c ! i) hosts \<and>
               Service (Services c ! i) = name \<and>
               (\<forall>j<i. \<not> (forMe (Services c ! j) hosts \<and> Service (Services c ! j) = name)) \<longrightarrow>
            newRouter order y c hosts s =
              (c\<lparr>Services := (Services c)[i := SetState (Now y) (Services c ! i) st []]\<rparr>,
               Exit (WriteString s (StatusText StatusOK)) 0))"
proof -
  have len: "1 < length (Command s)" and nm: "Command s ! 1 = name"
    using assms(2) by simp_all
  have r: "newRouter order y c hosts s = freezeStateService y c s st hosts"
  proof -
    from assms(3) consider "tok = ''/state/freeze''" "st = StateFreeze"
      | "tok = ''/state/unfreeze''" "st = StateOK" by auto
    then show ?thesis
    proof cases
      case 1
      then have "prefix ''/state/freeze'' tok" by simp
      from newRouter_hit [OF assms(1,2) routes_freeze this] 1 show ?thesis
        by (simp add: FreezeService_def)
    next
      case 2
      then have "prefix ''/state/unfreeze'' tok" by simp
      from newRouter_hit [OF assms(1,2) routes_unfreeze this] 2 show ?thesis
        by (simp add: UnfreezeService_def)
    qed
  qed
  note missing = freezeStateService_missing [OF len, of c hosts y st, unfolded nm]
  note found = freezeStateService_found [OF len, of _ c hosts y st, unfolded nm]
  show ?thesis
    unfolding r using missing found by blast
qed


theorem freeze_unfreeze_named_service_witness:
  "newRouter sourceOrder exampleHost exampleConfig [''alpha''] (session [''/state/freeze'', ''web''])
     = (exampleConfig\<lparr>Services := [dbService, webService\<lparr>state := StateFreeze, change := 1000\<rparr>]\<rparr>,
        \<lparr>Command = [''/state/freeze'', ''web''], stdout = ''OK'', status = Some 0\<rparr>) \<and>
   newRouter sourceOrder exampleHost exampleConfig [''alpha''] (session [''/state/unfreeze'', ''db''])
     = (exampleConfig,
        \<lparr>Command = [''/state/unfreeze'', ''db''], stdout = ''Not Found'', status = Some 404\<rparr>)"
proof -
  have c1: "Command (session [''/state/freeze'', ''web'']) = ''/state/freeze'' # ''web'' # []"
    by (simp add: session_def)
  have t1: "(''/state/freeze'', StateFreeze) = (''/state/freeze'', StateFreeze) \<or>
            (''/state/freeze'', StateFreeze) = (''/state/unfreeze'', StateOK)"
    by simp
  have c2: "Command (session [''/state/unfreeze'', ''db'']) = ''/state/unfreeze'' # ''db'' # []"
    by (simp add: session_def)
  have t2: "(''/state/unfreeze'', StateOK) = (''/state/freeze'', StateFreeze) \<or>
            (''/state/unfreeze'', StateOK) = (''/state/unfreeze'', StateOK)"
    by simp
  note found = freeze_unfreeze_named_service [OF set_sourceOrder c1 t1,
      of exampleConfig "[''alpha'']" exampleHost, THEN conjunct2, THEN spec [where x = "1::nat"]]
  note missing = freeze_unfreeze_named_service [OF set_sourceOrder c2 t2,
      of exampleConfig "[''alpha'']" exampleHost, THEN conjunct1]
  have "newRouter sourceOrder exampleHost exampleConfig [''alpha''] (session [''/state/freeze'', ''web''])
     = (exampleConfig\<lparr>Services := [dbService, webService\<lparr>state := StateFreeze, change := 1000\<rparr>]\<rparr>,
        \<lparr>Command = [''/state/freeze'', ''web''], stdout = ''OK'', status = Some 0\<rparr>)"
    using found by (simp add: handler_defs example_defs)
  moreover
  have "newRouter sourceOrder exampleHost exampleConfig [''alpha''] (session [''/state/unfreeze'', ''db''])
     = (exampleConfig,
        \<lparr>Command = [''/state/unfreeze'', ''db''], stdout = ''Not Found'', status = Some 404\<rparr>)"
    using missing by (simp add: handler_defs example_defs)
  ultimately show ?thesis by simp
qed

subsection \<open>Exit statuses\<close>

text \<open>
  Claim C6 does not hold of the code: a rollback command with two tokens makes the handler
  return without a reply and without an exit status, where the freeze handler answers a
  missing argument with status 406.
\<close>

theorem rollback_two_tokens_no_status:
  "newRouter sourceOrder exampleHost exampleConfig [''alpha''] (session [''/state/rollback'', ''web''])
     = (exampleConfig, \<lparr>Command = [''/state/rollback'', ''web''], stdout = [], status = None\<rparr>) \<and>
   newRouter sourceOrder exampleHost exampleConfig [''alpha''] (session [''/state/freeze''])
     = (exampleConfig, \<lparr>Command = [''/state/freeze''], stdout = [], status = Some 406\<rparr>)"
  by (simp add: newRouter_def sourceOrder_def routes_def handler_defs)

subsection \<open>Dispatch by prefix\<close>

text \<open>
  Claim C10: for any order in which the router visits its routes, a first token that has a
  route name as a prefix invokes that route's handler; equality with the route name is not
  needed.
\<close>

theorem dispatch_by_prefix:
  assumes "set order = dom routes" and "Command s = tok # args"
    and "routes p = Some f" and "prefix p tok"
  shows "newRouter order y c hosts s = f y c s hosts"
  using assms by (rule newRouter_hit)

theorem dispatch_by_prefix_witness:
  "set sourceOrder = dom routes \<and>
   Command (session [''/state/freezer'', ''web'']) = ''/state/freezer'' # [''web''] \<and>
   routes ''/state/freeze'' = Some FreezeService \<and>
   prefix ''/state/freeze'' ''/state/freezer'' \<and>
   ''/state/freezer'' \<notin> dom routes \<and>
   newRouter sourceOrder exampleHost exampleConfig [''alpha''] (session [''/state/freezer'', ''web''])
     = (exampleConfig\<lparr>Services := [dbService, webService\<lparr>state := StateFreeze, change := 1000\<rparr>]\<rparr>,
        \<lparr>Command = [''/state/freezer'', ''web''], stdout = ''OK'', status = Some 0\<rparr>)"
proof -
  have c: "Command (session [''/state/freezer'', ''web'']) = ''/state/freezer'' # [''web'']"
    by (simp add: session_def)
  have p: "prefix ''/state/freeze'' ''/state/freezer''" by simp
  have n: "''/state/freezer'' \<notin> dom routes" by (simp add: dom_routes)
  have "FreezeService exampleHost exampleConfig (session [''/state/freezer'', ''web'']) [''alpha'']
     = (exampleConfig\<lparr>Services := [dbService, webService\<lparr>state := StateFreeze, change := 1000\<rparr>]\<rparr>,
        \<lparr>Command = [''/state/freezer'', ''web''], stdout = ''OK'', status = Some 0\<rparr>)"
    by (simp add: handler_defs example_defs)
  with dispatch_by_prefix [OF set_sourceOrder c routes_freeze p, of exampleHost exampleConfig "[''alpha'']"]
    set_sourceOrder c routes_freeze p n
  show ?thesis by simp
qed


section \<open>Properties of the supervisor\<close>

subsection \<open>Helper lemmas\<close>

lemma workersOf_append: "workersOf (a @ b) = workersOf a @ workersOf b"
  by (induction a rule: workersOf.induct) simp_all

lemma startService_flag:
  "fst (snd (startService w g serv)) = startsClean w g serv"
  by (simp add: startService_def startsClean_def Let_def split: option.splits sum.splits)

lemma startService_workers:
  "workersOf (snd (snd (startService w g serv))) =
     (if fst (snd (startService w g serv)) then [fst (startService w g serv)] else [])"
  by (simp add: startService_def Let_def workersOf_append split: option.splits sum.splits)

lemma startServices_eq:
  "startServices w hosts g ss n =
     (n + length (filter (\<lambda>serv. forMe serv hosts) ss),
      map (\<lambda>serv. (fst (startService w g serv), fst (snd (startService w g serv))))
        (filter (\<lambda>serv. forMe serv hosts) ss),
      concat (map (\<lambda>serv. snd (snd (startService w g serv))) (filter (\<lambda>serv. forMe serv hosts) ss)))"
  by (induction ss arbitrary: n) (simp_all split: prod.splits)

lemma workersOf_concat_startService:
  "workersOf (concat (map (\<lambda>serv. snd (snd (startService w g serv))) ss)) =
     map fst (filter snd (map (\<lambda>serv. (fst (startService w g serv), fst (snd (startService w g serv)))) ss))"
  by (induction ss) (simp_all add: workersOf_append startService_workers)

lemma loadKeys_workers: "workersOf (snd (loadKeys w exec self' ps)) = []"
  by (induction ps) (auto simp: Let_def split: sum.splits prod.splits option.splits)

lemma loadKeys_trace_Inr: "loadKeys w exec self' ps = (r, tr) \<Longrightarrow> workersOf tr = []"
  using loadKeys_workers [of w exec self' ps] by simp


lemma andThen_workers:
  assumes "workersOf (snd m) = []" and "\<And>x. workersOf (snd (f x)) = []"
  shows "workersOf (snd (andThen m f)) = []"
proof (cases m)
  case (Pair r tr)
  show ?thesis
  proof (cases r)
    case (Inl e)
    with Pair assms(1) show ?thesis by (simp add: andThen_def)
  next
    case (Inr x)
    obtain r' tr' where f: "f x = (r', tr')" by (cases "f x")
    with assms(2) [of x] have "workersOf tr' = []" by simp
    with Pair Inr f assms(1) show ?thesis by (simp add: andThen_def workersOf_append)
  qed
qed

lemma startup_workers: "workersOf (snd (startup w exec)) = []"
  unfolding startup_def Let_def
  by (auto intro!: andThen_workers loadKeys_workers
      simp: bootstrap_def loadConfig_def serveSSH_def serveMonitoring_def
      split: option.splits sum.splits)

lemma bootstrap_keeps:
  "bootstrap w exec self' = (Inr exec1, tr) \<Longrightarrow>
   Hosts exec1 = Hosts exec \<and> Restart exec1 = Restart exec \<and> SAddr exec1 = SAddr exec \<and>
   MAddr exec1 = MAddr exec"
  by (auto simp: bootstrap_def split: option.splits if_splits)

lemma andThen_Inr:
  "andThen m f = (Inr y, tr) \<Longrightarrow>
   \<exists>x tr1 tr2. m = (Inr x, tr1) \<and> f x = (Inr y, tr2) \<and> tr = tr1 @ tr2"
  by (cases m) (auto simp: andThen_def split: sum.splits prod.splits)

lemma startup_Inr:
  assumes "startup w exec = (Inr (exec1, c), tr)"
  shows "Geteuid w = 0 \<and> ConfigSource exec \<noteq> [] \<and>
         (\<exists>trb trc tr1. bootstrap w exec (selfService w (ExecContext.Upstream exec) (Branch exec)
                       (ExecContext.Mount exec) (Dir exec)) = (Inr exec1, trb) \<and>
            loadConfig w exec1 (selfService w (ExecContext.Upstream exec) (Branch exec)
                       (ExecContext.Mount exec) (Dir exec)) = (Inr c, trc) \<and>
            tr = trb @ trc @ tr1)"
proof -
  from assms have g: "Geteuid w = 0" and n: "ConfigSource exec \<noteq> []"
    by (auto simp: startup_def split: if_splits)
  let ?self = "selfService w (ExecContext.Upstream exec) (Branch exec) (ExecContext.Mount exec) (Dir exec)"
  from assms g n have
    "andThen (bootstrap w exec ?self) (\<lambda>exec1.
       andThen (loadConfig w exec1 ?self) (\<lambda>c.
       andThen (loadKeys w exec1 ?self (Path (Keys c))) (\<lambda>allowed.
       andThen (serveSSH w exec1) (\<lambda>u.
       andThen (serveMonitoring w exec1) (\<lambda>u. (Inr (exec1, c), [])))))) = (Inr (exec1, c), tr)"
    by (simp add: startup_def Let_def)
  from andThen_Inr [OF this] obtain e1 trb tr2 where
    b: "bootstrap w exec ?self = (Inr e1, trb)" and t1: "tr = trb @ tr2" and
    r1: "andThen (loadConfig w e1 ?self) (\<lambda>c.
       andThen (loadKeys w e1 ?self (Path (Keys c))) (\<lambda>allowed.
       andThen (serveSSH w e1) (\<lambda>u.
       andThen (serveMonitoring w e1) (\<lambda>u. (Inr (e1, c), []))))) = (Inr (exec1, c), tr2)"
    by blast
  from andThen_Inr [OF r1] obtain c1 trc tr3 where
    l: "loadConfig w e1 ?self = (Inr c1, trc)" and t2: "tr2 = trc @ tr3" and
    r2: "andThen (loadKeys w e1 ?self (Path (Keys c1))) (\<lambda>allowed.
       andThen (serveSSH w e1) (\<lambda>u.
       andThen (serveMonitoring w e1) (\<lambda>u. (Inr (e1, c1), [])))) = (Inr (exec1, c), tr3)"
    by blast
  from andThen_Inr [OF r2] obtain al trk tr4 where
    r3: "andThen (serveSSH w e1) (\<lambda>u.
       andThen (serveMonitoring w e1) (\<lambda>u. (Inr (e1, c1), []))) = (Inr (exec1, c), tr4)"
    by blast
  from andThen_Inr [OF r3] obtain u1 trs tr5 where
    r4: "andThen (serveMonitoring w e1) (\<lambda>u. (Inr (e1, c1), [])) = (Inr (exec1, c), tr5)"
    by blast
  from andThen_Inr [OF r4] have "e1 = exec1" and "c1 = c" by auto
  with b l g n t1 t2 show ?thesis by auto
qed

lemma startup_Hosts:
  "startup w exec = (Inr (exec1, c), tr) \<Longrightarrow> Hosts exec1 = Hosts exec \<and> Restart exec1 = Restart exec"
  using startup_Inr [of w exec exec1 c tr] bootstrap_keeps by blast

lemma andThen_noHUP:
  assumes "case fst m of Inl e \<Rightarrow> \<not> Is_ErrHUP e | Inr x \<Rightarrow> True"
    and "\<And>x. case fst (f x) of Inl e \<Rightarrow> \<not> Is_ErrHUP e | Inr y \<Rightarrow> True"
  shows "case fst (andThen m f) of Inl e \<Rightarrow> \<not> Is_ErrHUP e | Inr y \<Rightarrow> True"
proof (cases m)
  case (Pair r tr)
  show ?thesis
  proof (cases r)
    case (Inl e)
    with Pair assms(1) show ?thesis by (simp add: andThen_def)
  next
    case (Inr x)
    obtain r' tr' where f: "f x = (r', tr')" by (cases "f x")
    with assms(2) [of x] Pair Inr show ?thesis by (simp add: andThen_def)
  qed
qed

lemma loadKeys_noHUP:
  "case fst (loadKeys w exec self' ps) of Inl e \<Rightarrow> \<not> Is_ErrHUP e | Inr y \<Rightarrow> True"
  by (induction ps) (auto simp: Let_def split: sum.splits prod.splits option.splits)

lemma bootstrap_noHUP:
  "case fst (bootstrap w exec self') of Inl e \<Rightarrow> \<not> Is_ErrHUP e | Inr y \<Rightarrow> True"
  by (simp add: bootstrap_def split: option.splits)

lemma loadConfig_noHUP:
  "case fst (loadConfig w exec self') of Inl e \<Rightarrow> \<not> Is_ErrHUP e | Inr y \<Rightarrow> True"
  by (simp add: loadConfig_def split: option.splits sum.splits)

lemma serveSSH_noHUP:
  "case fst (serveSSH w exec) of Inl e \<Rightarrow> \<not> Is_ErrHUP e | Inr y \<Rightarrow> True"
  by (simp add: serveSSH_def split: option.splits)

lemma serveMonitoring_noHUP:
  "case fst (serveMonitoring w exec) of Inl e \<Rightarrow> \<not> Is_ErrHUP e | Inr y \<Rightarrow> True"
  by (simp add: serveMonitoring_def split: option.splits)

lemma startup_noHUP:
  "case fst (startup w exec) of Inl e \<Rightarrow> \<not> Is_ErrHUP e | Inr y \<Rightarrow> True"
proof -
  have "case fst (andThen (bootstrap w exec self') (\<lambda>exec1.
           andThen (loadConfig w exec1 self') (\<lambda>c.
           andThen (loadKeys w exec1 self' (Path (Keys c))) (\<lambda>allowed.
           andThen (serveSSH w exec1) (\<lambda>u.
           andThen (serveMonitoring w exec1) (\<lambda>u. (Inr (exec1, c), []))))))) of
          Inl e \<Rightarrow> \<not> Is_ErrHUP e | Inr y \<Rightarrow> True" for self'
    by (intro andThen_noHUP bootstrap_noHUP loadConfig_noHUP loadKeys_noHUP serveSSH_noHUP
        serveMonitoring_noHUP) simp
  then show ?thesis
    by (simp add: startup_def Let_def)
qed

lemma startup_not_ErrHUP: "startup w exec = (Inl e, tr) \<Longrightarrow> \<not> Is_ErrHUP e"
  using startup_noHUP [of w exec] by simp


lemma run_after_startup:
  assumes "startup w exec = (Inr (exec1, c), tr)"
  shows "run w exec =
     (if filter (\<lambda>serv. forMe serv (Hosts exec)) (Services c) = []
      then \<lparr>returned = None, started = [],
            trace = tr @ [Log_Warning ''No services found for machine: %v, exiting'']\<rparr>
      else \<lparr>returned = (if Delivered w = SIGHUP then Some ErrHUP else None),
            started = map (\<lambda>serv. (fst (startService w (Global c) serv),
                                   fst (snd (startService w (Global c) serv))))
                        (filter (\<lambda>serv. forMe serv (Hosts exec)) (Services c)),
            trace = tr @
              concat (map (\<lambda>serv. snd (snd (startService w (Global c) serv)))
                        (filter (\<lambda>serv. forMe serv (Hosts exec)) (Services c))) @
              (if Restart exec then [Go_trackConfig (ConfigSource exec1)] else [])\<rparr>)"
proof -
  from startup_Hosts [OF assms] have h: "Hosts exec1 = Hosts exec" "Restart exec1 = Restart exec"
    by simp_all
  show ?thesis
    by (simp add: run_def assms startServices_eq h)
qed

lemma filter_forMe_empty:
  "filter (\<lambda>serv. forMe serv hosts) ss = [] \<longleftrightarrow> \<not> (\<exists>s\<in>set ss. forMe s hosts)"
  by (auto simp: filter_empty_conv)

lemma main_status:
  "main w flags =
     (case startup w (flags\<lparr>Hosts := hostIdentity w flags\<rparr>) of
        (Inl e, tr) \<Rightarrow> 1
      | (Inr (exec1, c), tr) \<Rightarrow>
          if (\<exists>s\<in>set (Services c). forMe s (hostIdentity w flags)) \<and> Delivered w = SIGHUP
          then 2 else 0)"
proof (cases "startup w (flags\<lparr>Hosts := hostIdentity w flags\<rparr>)")
  case (Pair r tr)
  show ?thesis
  proof (cases r)
    case (Inl e)
    with Pair have "\<not> Is_ErrHUP e" using startup_not_ErrHUP by blast
    with Pair Inl show ?thesis
      by (simp add: main_def Let_def run_def)
  next
    case (Inr p)
    obtain exec1 c where p: "p = (exec1, c)" by (cases p)
    with Pair Inr have s: "startup w (flags\<lparr>Hosts := hostIdentity w flags\<rparr>) = (Inr (exec1, c), tr)"
      by simp
    show ?thesis
      using filter_forMe_empty [of "hostIdentity w flags" "Services c"]
      by (simp add: main_def Let_def run_after_startup [OF s] s)
  qed
qed

lemma run_ErrHUP_iff:
  "returned (run w exec) = Some ErrHUP \<longleftrightarrow>
     (\<exists>exec1 c tr. startup w exec = (Inr (exec1, c), tr) \<and>
        (\<exists>s\<in>set (Services c). forMe s (Hosts exec)) \<and> Delivered w = SIGHUP)"
proof (cases "startup w exec")
  case (Pair r tr)
  show ?thesis
  proof (cases r)
    case (Inl e)
    with Pair have "\<not> Is_ErrHUP e" using startup_not_ErrHUP by blast
    then have "e \<noteq> ErrHUP" by auto
    with Pair Inl show ?thesis
      by (simp add: run_def)
  next
    case (Inr p)
    obtain exec1 c where p: "p = (exec1, c)" by (cases p)
    with Pair Inr have s: "startup w exec = (Inr (exec1, c), tr)"
      by simp
    show ?thesis
      using filter_forMe_empty [of "Hosts exec" "Services c"]
      by (simp add: run_after_startup [OF s] s)
  qed
qed

text \<open>
  Claim C3: the exit status is 1 when the startup fails, 2 when the startup succeeds, some
  service is of this host and the first signal delivered is the hangup signal, and 0 in
  every other case (an interrupt or termination signal, or no service of this host);
  \<^verbatim>\<open>run\<close> returns the sentinel \<open>ErrHUP\<close> exactly in the second case.
\<close>

theorem exit_status:
  "main w flags =
     (case startup w (flags\<lparr>Hosts := hostIdentity w flags\<rparr>) of
        (Inl e, tr) \<Rightarrow> 1
      | (Inr (exec1, c), tr) \<Rightarrow>
          if (\<exists>s\<in>set (Services c). forMe s (hostIdentity w flags)) \<and> Delivered w = SIGHUP
          then 2 else 0) \<and>
   (returned (run w exec) = Some ErrHUP \<longleftrightarrow>
     (\<exists>exec1 c tr. startup w exec = (Inr (exec1, c), tr) \<and>
        (\<exists>s\<in>set (Services c). forMe s (Hosts exec)) \<and> Delivered w = SIGHUP))"
  using main_status run_ErrHUP_iff by blast

lemmas run_defs = run_def startup_def andThen_def bootstrap_def loadConfig_def serveSSH_def
  serveMonitoring_def startService_def inTree_def forMe_def SetState_def hostIdentity_def Let_def

lemmas world_defs = exampleWorld_def exampleFlags_def exampleConfig_def webService_def
  dbService_def globalService_def selfExample_def pkgConfig_def

lemma startup_example:
  "startup exampleWorld (exampleFlags\<lparr>Hosts := hostIdentity exampleWorld exampleFlags\<rparr>) =
     (Inr (exampleFlags\<lparr>Hosts := [''alpha'']\<rparr>, exampleConfig),
      [Call_ReadFile ''gitopper.toml'', Call_Listen '':2222'', Call_Listen '':9222''])"
  by (simp add: run_defs exampleWorld_def exampleFlags_def exampleConfig_def)

theorem exit_status_witness:
  "main exampleWorld exampleFlags = 0 \<and>
   main (exampleWorld\<lparr>Delivered := SIGHUP\<rparr>) exampleFlags = 2 \<and>
   main (exampleWorld\<lparr>Delivered := SIGINT\<rparr>) exampleFlags = 0 \<and>
   main (exampleWorld\<lparr>Geteuid := 1000\<rparr>) exampleFlags = 1 \<and>
   main (exampleWorld\<lparr>Listen := (\<lambda>addr. Some ''address already in use'')\<rparr>) exampleFlags = 1"
proof -
  have "main exampleWorld exampleFlags = 0"
    using exit_status [of exampleWorld exampleFlags, THEN conjunct1]
    by (simp add: run_defs world_defs)
  moreover have "main (exampleWorld\<lparr>Delivered := SIGHUP\<rparr>) exampleFlags = 2"
    using exit_status [of "exampleWorld\<lparr>Delivered := SIGHUP\<rparr>" exampleFlags, THEN conjunct1]
    by (simp add: run_defs world_defs)
  moreover have "main (exampleWorld\<lparr>Delivered := SIGINT\<rparr>) exampleFlags = 0"
    using exit_status [of "exampleWorld\<lparr>Delivered := SIGINT\<rparr>" exampleFlags, THEN conjunct1]
    by (simp add: run_defs world_defs)
  moreover have "main (exampleWorld\<lparr>Geteuid := 1000\<rparr>) exampleFlags = 1"
    using exit_status [of "exampleWorld\<lparr>Geteuid := 1000\<rparr>" exampleFlags, THEN conjunct1]
    by (simp add: run_defs world_defs)
  moreover have "main (exampleWorld\<lparr>Listen := (\<lambda>addr. Some ''address already in use'')\<rparr>) exampleFlags = 1"
    using exit_status [of "exampleWorld\<lparr>Listen := (\<lambda>addr. Some ''address already in use'')\<rparr>" exampleFlags,
        THEN conjunct1]
    by (simp add: run_defs world_defs)
  ultimately show ?thesis by simp
qed


subsection \<open>Which services get a worker\<close>

lemma workers_after_startup:
  assumes "startup w exec = (Inr (exec1, c), tr)"
  shows "workersOf (trace (run w exec)) =
           map (\<lambda>serv. fst (startService w (Global c) serv))
             (filter (\<lambda>serv. forMe serv (Hosts exec) \<and> startsClean w (Global c) serv) (Services c))"
proof -
  have tr: "workersOf tr = []"
    using startup_workers [of w exec] assms by simp
  have m: "map fst (filter snd (map (\<lambda>serv. (fst (startService w g serv), fst (snd (startService w g serv)))) ss))
         = map (\<lambda>serv. fst (startService w g serv)) (filter (\<lambda>serv. startsClean w g serv) ss)" for g ss
    by (induction ss) (simp_all add: startService_flag)
  show ?thesis
    by (simp add: run_after_startup [OF assms] workersOf_append tr workersOf_concat_startService m
        filter_empty_conv)
qed

text \<open>
  Claim C4, as stated, fails: a service whose machine is in the host-identity set gets no
  worker when its checkout fails; the loop marks it broken and goes on.
\<close>

theorem failed_checkout_no_worker:
  "webService \<in> set (Services exampleConfig) \<and>
   Machine webService \<in> set (hostIdentity exampleWorld exampleFlags) \<and>
   workersOf (trace (run (exampleWorld\<lparr>Checkout := (\<lambda>s. Some ''exit status 128'')\<rparr>)
                      (exampleFlags\<lparr>Hosts := hostIdentity exampleWorld exampleFlags\<rparr>))) = [] \<and>
   started (run (exampleWorld\<lparr>Checkout := (\<lambda>s. Some ''exit status 128'')\<rparr>)
                (exampleFlags\<lparr>Hosts := hostIdentity exampleWorld exampleFlags\<rparr>))
     = [(webService\<lparr>state := StateBroken, info := ''error pulling %q: %s'', change := 1000\<rparr>, False)]"
  by (simp add: run_defs world_defs)

text \<open>
  Claim C4, amended: after a successful startup the workers started are those of the
  configured services whose machine is in the host-identity set and whose package install
  (when a package is named), checkout and bind mounts all succeed, in the order of the
  configuration; every service of this host is handled by the loop, and no service of
  another host is.
\<close>

theorem worker_iff_host_and_clean_start:
  assumes "startup w exec = (Inr (exec1, c), tr)"
  shows "workersOf (trace (run w exec)) =
           map (\<lambda>serv. fst (startService w (Global c) serv))
             (filter (\<lambda>serv. forMe serv (Hosts exec) \<and> startsClean w (Global c) serv) (Services c)) \<and>
         started (run w exec) =
           map (\<lambda>serv. (fst (startService w (Global c) serv), startsClean w (Global c) serv))
             (filter (\<lambda>serv. forMe serv (Hosts exec)) (Services c))"
  using workers_after_startup [OF assms]
  by (simp add: run_after_startup [OF assms] startService_flag)

theorem worker_iff_host_and_clean_start_witness:
  "startup exampleWorld (exampleFlags\<lparr>Hosts := hostIdentity exampleWorld exampleFlags\<rparr>) =
     (Inr (exampleFlags\<lparr>Hosts := [''alpha'']\<rparr>, exampleConfig),
      [Call_ReadFile ''gitopper.toml'', Call_Listen '':2222'', Call_Listen '':9222'']) \<and>
   workersOf (trace (run exampleWorld (exampleFlags\<lparr>Hosts := hostIdentity exampleWorld exampleFlags\<rparr>)))
     = [webService] \<and>
   started (run exampleWorld (exampleFlags\<lparr>Hosts := hostIdentity exampleWorld exampleFlags\<rparr>))
     = [(webService, True)]"
proof -
  have a: "map (\<lambda>serv. fst (startService exampleWorld (Global exampleConfig) serv))
             (filter (\<lambda>serv. forMe serv (hostIdentity exampleWorld exampleFlags) \<and>
                        startsClean exampleWorld (Global exampleConfig) serv)
                (Services exampleConfig)) = [webService]"
    by (simp add: startService_def startsClean_def forMe_def hostIdentity_def Let_def world_defs)
  have b: "map (\<lambda>serv. (fst (startService exampleWorld (Global exampleConfig) serv),
                        startsClean exampleWorld (Global exampleConfig) serv))
             (filter (\<lambda>serv. forMe serv (hostIdentity exampleWorld exampleFlags))
                (Services exampleConfig)) = [(webService, True)]"
    by (simp add: startService_def startsClean_def forMe_def hostIdentity_def Let_def world_defs)
  from worker_iff_host_and_clean_start [OF startup_example] show ?thesis
    by (simp add: a b startup_example)
qed

subsection \<open>No service of this host\<close>

lemma inTree_Delivered: "inTree (w\<lparr>Delivered := sig\<rparr>) self exec p = inTree w self exec p"
  by (simp add: inTree_def)

lemma loadKeys_Delivered:
  "loadKeys (w\<lparr>Delivered := sig\<rparr>) exec self' ps = loadKeys w exec self' ps"
  by (induction ps)
    (simp_all add: Let_def inTree_Delivered
       cong: option.case_cong sum.case_cong prod.case_cong if_cong)

lemma startup_Delivered: "startup (w\<lparr>Delivered := sig\<rparr>) exec = startup w exec"
  by (simp add: startup_def Let_def bootstrap_def loadConfig_def serveSSH_def serveMonitoring_def
      inTree_Delivered loadKeys_Delivered
      cong: option.case_cong sum.case_cong prod.case_cong if_cong)

text \<open>
  Claim C9: when the startup succeeds and no configured service is of this host, \<^verbatim>\<open>run\<close>
  logs the warning and returns \<^verbatim>\<open>nil\<close>, whatever signal would be delivered; no worker is
  started and the exit status is 0.
\<close>

theorem no_service_returns_nil:
  assumes "startup w exec = (Inr (exec1, c), tr)"
    and "\<forall>s\<in>set (Services c). \<not> forMe s (Hosts exec)"
  shows "run w exec =
           \<lparr>returned = None, started = [],
            trace = tr @ [Log_Warning ''No services found for machine: %v, exiting'']\<rparr> \<and>
         workersOf (trace (run w exec)) = [] \<and>
         (\<forall>sig. run (w\<lparr>Delivered := sig\<rparr>) exec = run w exec) \<and>
         (\<forall>flags. exec = flags\<lparr>Hosts := hostIdentity w flags\<rparr> \<longrightarrow> main w flags = 0)"
proof -
  from assms(2) have e: "filter (\<lambda>serv. forMe serv (Hosts exec)) (Services c) = []"
    by (simp add: filter_empty_conv)
  have r: "run w exec =
           \<lparr>returned = None, started = [],
            trace = tr @ [Log_Warning ''No services found for machine: %v, exiting'']\<rparr>"
    by (simp add: run_after_startup [OF assms(1)] e)
  have w: "workersOf (trace (run w exec)) = []"
    using startup_workers [of w exec] assms(1) by (simp add: r workersOf_append)
  have d: "run (w\<lparr>Delivered := sig\<rparr>) exec = run w exec" for sig
  proof -
    have "startup (w\<lparr>Delivered := sig\<rparr>) exec = (Inr (exec1, c), tr)"
      by (simp add: startup_Delivered assms(1))
    from run_after_startup [OF this] show ?thesis
      by (simp add: e r)
  qed
  have m: "main w flags = 0" if "exec = flags\<lparr>Hosts := hostIdentity w flags\<rparr>" for flags
    using r that by (simp add: main_def Let_def)
  from r w d m show ?thesis by blast
qed

theorem no_service_returns_nil_witness:
  "run (exampleWorld\<lparr>osHostname := ''gamma''\<rparr>)
       (exampleFlags\<lparr>Hosts := hostIdentity (exampleWorld\<lparr>osHostname := ''gamma''\<rparr>) exampleFlags\<rparr>)
     = \<lparr>returned = None, started = [],
        trace = [Call_ReadFile ''gitopper.toml'', Call_Listen '':2222'', Call_Listen '':9222'',
                 Log_Warning ''No services found for machine: %v, exiting'']\<rparr> \<and>
   main (exampleWorld\<lparr>osHostname := ''gamma''\<rparr>) exampleFlags = 0"
proof -
  let ?w = "exampleWorld\<lparr>osHostname := ''gamma''\<rparr>"
  let ?exec = "exampleFlags\<lparr>Hosts := hostIdentity ?w exampleFlags\<rparr>"
  have s: "startup ?w ?exec =
     (Inr (exampleFlags\<lparr>Hosts := [''gamma'']\<rparr>, exampleConfig),
      [Call_ReadFile ''gitopper.toml'', Call_Listen '':2222'', Call_Listen '':9222''])"
    by (simp add: run_defs world_defs)
  have n: "\<forall>s\<in>set (Services exampleConfig). \<not> forMe s (Hosts ?exec)"
    by (simp add: forMe_def hostIdentity_def world_defs)
  from no_service_returns_nil [OF s n] show ?thesis
    by simp
qed


subsection \<open>Bootstrap\<close>

lemma andThen_trace: "\<exists>tr'. snd (andThen m f) = snd m @ tr'"
  by (cases m) (auto simp: andThen_def split: sum.splits prod.splits)

lemma run_trace_prefix: "\<exists>tr'. trace (run w exec) = snd (startup w exec) @ tr'"
  by (auto simp: run_def split: prod.splits sum.splits)

lemma startup_trace_prefix:
  assumes "Geteuid w = 0" and "ConfigSource exec \<noteq> []"
  shows "\<exists>tr'. snd (startup w exec) =
           snd (bootstrap w exec (selfService w (ExecContext.Upstream exec) (Branch exec)
                  (ExecContext.Mount exec) (Dir exec))) @ tr'"
  using assms andThen_trace by (simp add: startup_def Let_def)

lemma bootstrap_trace_head:
  "\<exists>tr'. snd (bootstrap w exec (Some self)) = Call_Checkout self # tr'"
  by (simp add: bootstrap_def split: option.splits)

lemma bootstrap_Some_Inr:
  assumes "bootstrap w exec (Some self) = (Inr exec1, trb)"
  shows "exec1 = exec\<lparr>ConfigSource := inTree w self exec (ConfigSource exec)\<rparr> \<and>
         trb = Call_Checkout self # (if Pull exec then [Call_Pull self] else [])"
  using assms by (auto simp: bootstrap_def split: option.splits if_splits)

lemma loadConfig_Some_Inr:
  assumes "loadConfig w exec1 (Some self) = (Inr c, trc)"
  shows "\<exists>doc c0. ReadFile w (ConfigSource exec1) = Inr doc \<and> parseConfig w doc = Inr c0 \<and>
           c = c0\<lparr>Services := Services c0 @ [self]\<rparr> \<and> trc = [Call_ReadFile (ConfigSource exec1)]"
  using assms by (auto simp: loadConfig_def split: option.splits sum.splits)

text \<open>
  Claim C7: when the process is root, a configuration path is given and \<^verbatim>\<open>selfService\<close>
  returns a bootstrap service, the first step of \<^verbatim>\<open>run\<close> is the checkout of that service
  (a failure ends \<^verbatim>\<open>run\<close> with a \<^verbatim>\<open>RepoPullError\<close> before any file is read); the configuration
  is read from the path inside the checked-out tree; and the bootstrap service is appended
  to the configured services, which the loop over the services then handles as a whole.
\<close>

theorem bootstrap_first:
  assumes "Geteuid w = 0" and "ConfigSource exec \<noteq> []"
    and "selfService w (ExecContext.Upstream exec) (Branch exec) (ExecContext.Mount exec) (Dir exec)
           = Some self"
  shows "take 1 (trace (run w exec)) = [Call_Checkout self] \<and>
         (\<forall>err. Checkout w self = Some err \<longrightarrow>
            run w exec =
              \<lparr>returned = Some (RepoPullError (Machine self) (Upstream self) err), started = [],
               trace = [Call_Checkout self]\<rparr>) \<and>
         (\<forall>exec1 c tr. startup w exec = (Inr (exec1, c), tr) \<longrightarrow>
            ConfigSource exec1 = inTree w self exec (ConfigSource exec) \<and>
            (\<exists>doc c0 tr1.
               ReadFile w (inTree w self exec (ConfigSource exec)) = Inr doc \<and>
               parseConfig w doc = Inr c0 \<and>
               c = c0\<lparr>Services := Services c0 @ [self]\<rparr> \<and>
               tr = Call_Checkout self # (if Pull exec then [Call_Pull self] else []) @
                      Call_ReadFile (inTree w self exec (ConfigSource exec)) # tr1) \<and>
            started (run w exec) =
              fst (snd (startServices w (Hosts exec) (Global c) (Services c) 0)))"
proof (intro conjI allI impI)
  from run_trace_prefix [of w exec] startup_trace_prefix [OF assms(1,2)]
    bootstrap_trace_head [of w exec self]
  show "take 1 (trace (run w exec)) = [Call_Checkout self]"
    by (auto simp: assms(3))
next
  fix err assume "Checkout w self = Some err"
  then show "run w exec =
      \<lparr>returned = Some (RepoPullError (Machine self) (Upstream self) err), started = [],
       trace = [Call_Checkout self]\<rparr>"
    using assms by (simp add: run_def startup_def bootstrap_def andThen_def)
next
  fix exec1 c tr assume s: "startup w exec = (Inr (exec1, c), tr)"
  from startup_Inr [OF s] assms(3) obtain trb trc tr1 where
    b: "bootstrap w exec (Some self) = (Inr exec1, trb)" and
    l: "loadConfig w exec1 (Some self) = (Inr c, trc)" and
    t: "tr = trb @ trc @ tr1"
    by auto
  from bootstrap_Some_Inr [OF b] have
    e: "exec1 = exec\<lparr>ConfigSource := inTree w self exec (ConfigSource exec)\<rparr>" and
    tb: "trb = Call_Checkout self # (if Pull exec then [Call_Pull self] else [])"
    by simp_all
  from e show "ConfigSource exec1 = inTree w self exec (ConfigSource exec)"
    by simp
  from loadConfig_Some_Inr [OF l] e t tb
  show "\<exists>doc c0 tr1.
       ReadFile w (inTree w self exec (ConfigSource exec)) = Inr doc \<and>
       parseConfig w doc = Inr c0 \<and>
       c = c0\<lparr>Services := Services c0 @ [self]\<rparr> \<and>
       tr = Call_Checkout self # (if Pull exec then [Call_Pull self] else []) @
              Call_ReadFile (inTree w self exec (ConfigSource exec)) # tr1"
    by auto
  from startup_Hosts [OF s] show "started (run w exec) =
      fst (snd (startServices w (Hosts exec) (Global c) (Services c) 0))"
    by (simp add: run_def s split: prod.splits)
qed

theorem bootstrap_first_witness:
  "take 1 (trace (run (exampleWorld\<lparr>selfService := (\<lambda>upstream branch mount dir. Some selfExample)\<rparr>)
                      (exampleFlags\<lparr>Hosts := [''alpha''], ExecContext.Upstream := ''git://x/conf.git''\<rparr>)))
     = [Call_Checkout selfExample] \<and>
   started (run (exampleWorld\<lparr>selfService := (\<lambda>upstream branch mount dir. Some selfExample)\<rparr>)
                (exampleFlags\<lparr>Hosts := [''alpha''], ExecContext.Upstream := ''git://x/conf.git''\<rparr>))
     = [(webService, True), (selfExample, True)] \<and>
   trace (run (exampleWorld\<lparr>selfService := (\<lambda>upstream branch mount dir. Some selfExample)\<rparr>)
              (exampleFlags\<lparr>Hosts := [''alpha''], ExecContext.Upstream := ''git://x/conf.git''\<rparr>))
     = [Call_Checkout selfExample,
        Call_ReadFile ''/srv/self/gitopper-alpha/gitopper/gitopper.toml'',
        Call_Listen '':2222'', Call_Listen '':9222'',
        Call_Checkout webService, Call_bindmount webService, Call_systemctl webService,
        Go_trackUpstream webService,
        Call_Checkout selfExample, Call_bindmount selfExample, Call_systemctl selfExample,
        Go_trackUpstream selfExample]"
proof -
  let ?w = "exampleWorld\<lparr>selfService := (\<lambda>upstream branch mount dir. Some selfExample)\<rparr>"
  let ?exec = "exampleFlags\<lparr>Hosts := [''alpha''], ExecContext.Upstream := ''git://x/conf.git''\<rparr>"
  have g: "Geteuid ?w = 0" by (simp add: exampleWorld_def)
  have n: "ConfigSource ?exec \<noteq> []" by (simp add: exampleFlags_def)
  have s: "selfService ?w (ExecContext.Upstream ?exec) (Branch ?exec) (ExecContext.Mount ?exec) (Dir ?exec)
             = Some selfExample"
    by simp
  have t: "trace (run ?w ?exec)
     = [Call_Checkout selfExample,
        Call_ReadFile ''/srv/self/gitopper-alpha/gitopper/gitopper.toml'',
        Call_Listen '':2222'', Call_Listen '':9222'',
        Call_Checkout webService, Call_bindmount webService, Call_systemctl webService,
        Go_trackUpstream webService,
        Call_Checkout selfExample, Call_bindmount selfExample, Call_systemctl selfExample,
        Go_trackUpstream selfExample]"
    by (simp add: run_defs world_defs)
  have st: "started (run ?w ?exec) = [(webService, True), (selfExample, True)]"
    by (simp add: run_defs world_defs)
  from bootstrap_first [OF g n s, THEN conjunct1] t st show ?thesis
    by simp
qed


section \<open>Properties of the first main\<close>

lemmas duration_defs = Hour_def Minute_def Second_def Millisecond_def Microsecond_def
  Nanosecond_def

lemmas parse_defs = ParseDuration_def parseTerm_def isDigit_def isUnitChar_def unitMap_def
  Let_def

lemma ParseDuration_30s: "ParseDuration ''30s'' = Inr (30 * Second)"
  by (simp add: parse_defs duration_defs)

lemma ParseDuration_4999ms: "ParseDuration ''4999ms'' = Inr (4999 * Millisecond)"
  by (simp add: parse_defs duration_defs)

lemma ParseDuration_5s: "ParseDuration ''5s'' = Inr (5 * Second)"
  by (simp add: parse_defs duration_defs)

lemma legacyLoop_workers:
  "s1 \<in> set (workersOf (snd (legacyLoop w g d ss))) \<Longrightarrow> \<exists>s\<in>set ss. s1 = mergeDuration w s g d"
proof (induction ss)
  case Nil
  then show ?case by simp
next
  case (Cons a ss)
  then show ?case
    by (auto simp: Let_def workersOf_append split: option.splits prod.splits sum.splits if_splits)
qed

lemma mainLegacy_short:
  assumes "ParseDuration (flagDuration fl) = Inr d" and "d < 5 * Second"
  shows "snd (mainLegacy w fl) = [] \<and> (\<exists>msg. fst (mainLegacy w fl) = Inl (Fatal msg))"
  using assms by (simp add: mainLegacy_def)

lemma mainLegacy_workers:
  assumes "s1 \<in> set (workersOf (snd (mainLegacy w fl)))"
  shows "\<exists>d s g. ParseDuration (flagDuration fl) = Inr d \<and> 5 * Second \<le> d \<and>
           s1 = mergeDuration w s g d"
proof (cases "flagConfig fl = []")
  case True
  with assms show ?thesis by (simp add: mainLegacy_def)
next
  case False
  show ?thesis
  proof (cases "ParseDuration (flagDuration fl)")
    case (Inl e)
    with assms False show ?thesis by (simp add: mainLegacy_def)
  next
    case (Inr d)
    show ?thesis
    proof (cases "d < 5 * Second")
      case True
      with assms False Inr show ?thesis by (simp add: mainLegacy_def)
    next
      case ge: False
      from assms False Inr ge obtain c :: Config and r tr where
        ll: "legacyLoop w (Global c) d (Services c) = (r, tr)" and m: "s1 \<in> set (workersOf tr)"
        by (auto simp: mainLegacy_def split: sum.splits option.splits prod.splits)
      from legacyLoop_workers [of s1 w "Global c" d "Services c"] ll m Inr ge
      show ?thesis by auto
    qed
  qed
qed

text \<open>
  Claim C8, as stated, fails: the default of the duration flag is \<open>30s\<close>, which is thirty
  seconds and not five minutes, and the first \<^verbatim>\<open>main\<close> starts its workers with it.
\<close>

theorem default_duration_30s:
  "ParseDuration (flagDuration defaultFlags) = Inr (30 * Second) \<and>
   30 * Second \<noteq> 5 * Minute \<and>
   fst (mainLegacy exampleWorld (defaultFlags\<lparr>flagConfig := ''gitopper.toml''\<rparr>))
     = Inr [dbService, webService]"
  by (simp add: defaultFlags_def ParseDuration_30s mainLegacy_def exampleWorld_def exampleConfig_def
      duration_defs)

text \<open>
  Claim C8, amended: the duration defaults to 30 seconds; for every parsed duration below 5
  seconds the first \<^verbatim>\<open>main\<close> exits fatally before it takes any step, and every worker it
  starts belongs to a service merged with a duration of at least 5 seconds.
\<close>

theorem duration_lower_bound:
  "ParseDuration (flagDuration defaultFlags) = Inr (30 * Second) \<and>
   (\<forall>d. ParseDuration (flagDuration fl) = Inr d \<and> d < 5 * Second \<longrightarrow>
      snd (mainLegacy w fl) = [] \<and> (\<exists>msg. fst (mainLegacy w fl) = Inl (Fatal msg))) \<and>
   (\<forall>s1. s1 \<in> set (workersOf (snd (mainLegacy w fl))) \<longrightarrow>
      (\<exists>d s g. ParseDuration (flagDuration fl) = Inr d \<and> 5 * Second \<le> d \<and>
         s1 = mergeDuration w s g d))"
  using mainLegacy_short mainLegacy_workers
  by (simp add: defaultFlags_def ParseDuration_30s)

theorem duration_lower_bound_witness:
  "ParseDuration ''4999ms'' = Inr (4999 * Millisecond) \<and> 4999 * Millisecond < 5 * Second \<and>
   mainLegacy exampleWorld (defaultFlags\<lparr>flagConfig := ''gitopper.toml'', flagDuration := ''4999ms''\<rparr>)
     = (Inl (Fatal ''invalid -d value (<5s)''), []) \<and>
   webService \<in> set (workersOf (snd (mainLegacy exampleWorld
      (defaultFlags\<lparr>flagConfig := ''gitopper.toml'', flagDuration := ''5s''\<rparr>)))) \<and>
   ParseDuration ''5s'' = Inr (5 * Second)"
proof -
  let ?short = "defaultFlags\<lparr>flagConfig := ''gitopper.toml'', flagDuration := ''4999ms''\<rparr>"
  let ?ok = "defaultFlags\<lparr>flagConfig := ''gitopper.toml'', flagDuration := ''5s''\<rparr>"
  have lt: "4999 * Millisecond < 5 * Second" by (simp add: duration_defs)
  have p: "ParseDuration (flagDuration ?short) = Inr (4999 * Millisecond)"
    by (simp add: ParseDuration_4999ms)
  from duration_lower_bound [of ?short exampleWorld, THEN conjunct2, THEN conjunct1,
      THEN spec [where x = "4999 * Millisecond"]] p lt
  have "snd (mainLegacy exampleWorld ?short) = []" by simp
  moreover have "mainLegacy exampleWorld ?short = (Inl (Fatal ''invalid -d value (<5s)''), [])"
    using lt by (simp add: mainLegacy_def defaultFlags_def ParseDuration_4999ms)
  moreover have "webService \<in> set (workersOf (snd (mainLegacy exampleWorld ?ok)))"
    by (simp add: mainLegacy_def defaultFlags_def ParseDuration_5s exampleWorld_def
        exampleConfig_def Let_def duration_defs)
  ultimately show ?thesis
    using lt by (simp add: ParseDuration_4999ms ParseDuration_5s)
qed

subsection \<open>Failures during startup\<close>

text \<open>
  Claim C2 does not hold of the code. In \<^verbatim>\<open>run\<close> a failed package install skips the service
  and leaves its state \<open>OK\<close>, where a failed checkout or bind mount marks it broken. In the
  first \<^verbatim>\<open>main\<close> a failed bind mount is fatal, and a failed checkout is only logged: the
  state stays \<open>OK\<close> and the worker is started.
\<close>

theorem startup_failures_evaluated:
  "started (run (exampleWorld\<lparr>parseConfig := (\<lambda>doc. Inr pkgConfig),
                               Install := (\<lambda>pkg. Some ''unable to locate package'')\<rparr>)
                (exampleFlags\<lparr>Hosts := [''alpha'']\<rparr>))
     = [(webService\<lparr>Package := ''nginx''\<rparr>, False)] \<and>
   state (webService\<lparr>Package := ''nginx''\<rparr>) = StateOK \<and>
   mainLegacy (exampleWorld\<lparr>bindmountLegacy := (\<lambda>s. Some ''permission denied'')\<rparr>)
              (defaultFlags\<lparr>flagConfig := ''gitopper.toml''\<rparr>)
     = (Inl (Fatal ''Can not setup bind mounts: %s''),
        [Call_ReadFile ''gitopper.toml'', Call_Checkout dbService, Call_bindmount dbService]) \<and>
   mainLegacy (exampleWorld\<lparr>Checkout := (\<lambda>s. Some ''exit status 128'')\<rparr>)
              (defaultFlags\<lparr>flagConfig := ''gitopper.toml''\<rparr>)
     = (Inr [dbService, webService],
        [Call_ReadFile ''gitopper.toml'',
         Call_Checkout dbService, Log_Warning ''Machine %q, error checking out: %s'',
         Call_bindmount dbService, Go_trackUpstream dbService,
         Call_Checkout webService, Log_Warning ''Machine %q, error checking out: %s'',
         Call_bindmount webService, Go_trackUpstream webService]) \<and>
   state dbService = StateOK \<and> state webService = StateOK"
proof -
  have a: "started (run (exampleWorld\<lparr>parseConfig := (\<lambda>doc. Inr pkgConfig),
                               Install := (\<lambda>pkg. Some ''unable to locate package'')\<rparr>)
                (exampleFlags\<lparr>Hosts := [''alpha'']\<rparr>))
     = [(webService\<lparr>Package := ''nginx''\<rparr>, False)]"
    by (simp add: run_defs world_defs)
  have b: "mainLegacy (exampleWorld\<lparr>bindmountLegacy := (\<lambda>s. Some ''permission denied'')\<rparr>)
              (defaultFlags\<lparr>flagConfig := ''gitopper.toml''\<rparr>)
     = (Inl (Fatal ''Can not setup bind mounts: %s''),
        [Call_ReadFile ''gitopper.toml'', Call_Checkout dbService, Call_bindmount dbService])"
    by (simp add: mainLegacy_def defaultFlags_def ParseDuration_30s exampleWorld_def
        exampleConfig_def Let_def duration_defs)
  have c: "mainLegacy (exampleWorld\<lparr>Checkout := (\<lambda>s. Some ''exit status 128'')\<rparr>)
              (defaultFlags\<lparr>flagConfig := ''gitopper.toml''\<rparr>)
     = (Inr [dbService, webService],
        [Call_ReadFile ''gitopper.toml'',
         Call_Checkout dbService, Log_Warning ''Machine %q, error checking out: %s'',
         Call_bindmount dbService, Go_trackUpstream dbService,
         Call_Checkout webService, Log_Warning ''Machine %q, error checking out: %s'',
         Call_bindmount webService, Go_trackUpstream webService])"
    by (simp add: mainLegacy_def defaultFlags_def ParseDuration_30s exampleWorld_def
        exampleConfig_def Let_def duration_defs)
  have d: "state (webService\<lparr>Package := ''nginx''\<rparr>) = StateOK \<and>
           state dbService = StateOK \<and> state webService = StateOK"
    by (simp add: webService_def dbService_def)
  from a b c d show ?thesis by simp
qed

end
